theory Spec2Isabelle
  imports Complex_Main "HOL-Library.Multiset"
begin

section \<open>Data model of copt/stochastic.py\<close>

text \<open>
  Floating point is abstracted to exact reals. Dense numpy arrays are lists. The sparse
  design matrix is taken in the form the epoch kernels read it: the three arrays of a
  scipy CSR matrix together with its shape. The kernels are compiled by numba without
  bounds checks, so a read or write outside an array has no defined behaviour in the
  source; statements that depend on what an access returns are made for well-formed input
  (\<open>csr_wf\<close> and \<open>support_wf\<close> below), where every access is in range. Indices are
  natural numbers: the index arrays of scipy and the draws of numpy are never negative.
\<close>

record csr =
  data :: "real list"
  indices :: "nat list"
  indptr :: "nat list"
  shape0 :: nat
  shape1 :: nat

text \<open>The exceptions the two drivers can raise, with the message where one is given.\<close>

datatype error =
    AssertionError
  | ValueError string
  | NotImplementedError
  | IndexError
  | UnboundLocalError

text \<open>
  An optional callable argument: \<open>None\<close>, something with \<open>__call__\<close>, or any other object
  (the \<open>else: raise NotImplementedError\<close> branch).
\<close>

datatype 'f py_arg = PyNone | PyCallable 'f | PyOther

text \<open>
  A proximal operator of fmin_SAGA works in place on \<open>x\<close> between \<open>low\<close> and \<open>high\<close>:
  \<open>g_prox(step_size, x, low, high)\<close>; the model returns the array after the call.
  The \<open>g_prox\<close> of fmin_PSSAGA is called as \<open>g_prox(step_size, y, x, low, high, weights)\<close>
  and may write both arrays.
\<close>

type_synonym prox = "real \<Rightarrow> real list \<Rightarrow> nat \<Rightarrow> nat \<Rightarrow> real list"

type_synonym prox2 =
  "real \<Rightarrow> real list \<Rightarrow> real list \<Rightarrow> nat \<Rightarrow> nat \<Rightarrow> real list \<Rightarrow> real list \<times> real list"

record saga_state =
  x_vec :: "real list"
  memory_gradient :: "real list"
  gradient_average :: "real list"

record pssaga_state = saga_state +
  y_vec :: "real list"
  z_vec :: "real list"

subsection \<open>Loss functions\<close>

definition f_squared :: "real \<Rightarrow> real \<Rightarrow> real" where
  "f_squared p y = 0.5 * ((y - p) ^ 2)"

definition deriv_squared :: "real \<Rightarrow> real \<Rightarrow> real" where
  "deriv_squared p y = - (y - p)"

definition prox_L1 :: prox where
  "prox_L1 step_size xv low high =
     fold (\<lambda>j xv. xv[j := max (xv ! j - step_size) 0 - max (- (xv ! j) - step_size) 0])
       [low..<high] xv"

subsection \<open>Dense vector helpers (numpy broadcasting on equal-length arrays)\<close>

definition vadd :: "real list \<Rightarrow> real list \<Rightarrow> real list" where
  "vadd u v = map2 (+) u v"

definition vsub :: "real list \<Rightarrow> real list \<Rightarrow> real list" where
  "vsub u v = map2 (-) u v"

definition smul :: "real \<Rightarrow> real list \<Rightarrow> real list" where
  "smul c v = map ((*) c) v"

definition linalg_norm :: "real list \<Rightarrow> real" where
  "linalg_norm v = sqrt (sum_list (map (\<lambda>a. a * a) v))"

section \<open>The sparse rows\<close>

definition row_range :: "csr \<Rightarrow> nat \<Rightarrow> nat list" where
  "row_range A i = [indptr A ! i ..< indptr A ! (i + 1)]"

text \<open>
  \<open>A[i, j]\<close>: the sum of the stored entries of row \<open>i\<close> with column \<open>j\<close> (scipy adds
  duplicate entries).
\<close>

definition A_entry :: "csr \<Rightarrow> nat \<Rightarrow> nat \<Rightarrow> real" where
  "A_entry A i j =
     sum_list (map (\<lambda>k. if indices A ! k = j then data A ! k else 0) (row_range A i))"


section \<open>Gradient memory table\<close>

text \<open>\<open>init_gradient\<close> (identical in both factories).\<close>

definition init_gradient_row ::
  "(real \<Rightarrow> real \<Rightarrow> real) \<Rightarrow> csr \<Rightarrow> real list \<Rightarrow> nat \<Rightarrow> nat \<Rightarrow>
   real list \<times> real list \<Rightarrow> real list \<times> real list" where
  "init_gradient_row f_prime A b n i = (\<lambda>(mem, ga).
     let grad_i = f_prime 0 (b ! i);
         mem = mem[i := grad_i];
         ga = fold (\<lambda>j ga. let j_idx = indices A ! j
                            in ga[j_idx := ga ! j_idx + grad_i * data A ! j / real n])
                (row_range A i) ga
     in (mem, ga))"

definition init_gradient ::
  "(real \<Rightarrow> real \<Rightarrow> real) \<Rightarrow> csr \<Rightarrow> real list \<Rightarrow> real list \<Rightarrow> real list \<Rightarrow> nat \<Rightarrow>
   real list \<times> real list" where
  "init_gradient f_prime A b mem ga n =
     fold (init_gradient_row f_prime A b n) [0..<n] (mem, ga)"

text \<open>The loop headed \<open>.. update memory terms ..\<close>, shared by both kernels.\<close>

definition update_memory_terms ::
  "csr \<Rightarrow> real \<Rightarrow> real list \<Rightarrow> nat \<Rightarrow> real list \<Rightarrow> real list" where
  "update_memory_terms A grad_i mem i ga =
     fold (\<lambda>j ga. let j_idx = indices A ! j
                   in ga[j_idx := ga ! j_idx + (grad_i - mem ! i) * data A ! j / real (shape0 A)])
       (row_range A i) ga"

section \<open>SAGA epoch kernel\<close>

definition predict :: "csr \<Rightarrow> real list \<Rightarrow> nat \<Rightarrow> real" where
  "predict A xv i =
     fold (\<lambda>j p. p + xv ! (indices A ! j) * data A ! j) (row_range A i) 0"

definition update_coefficients ::
  "csr \<Rightarrow> real \<Rightarrow> real \<Rightarrow> real \<Rightarrow> real \<Rightarrow> real list \<Rightarrow> nat \<Rightarrow> real list \<Rightarrow> real list" where
  "update_coefficients A alpha step_size grad_i mem_i ga i xv =
     fold (\<lambda>j xv.
             let j_idx = indices A ! j;
                 x_j = xv ! j_idx;
                 incr = (grad_i - mem_i) * data A ! j + (ga ! j_idx + alpha * x_j);
                 x_new = x_j - step_size * incr
             in xv[j_idx := x_new])
       (row_range A i) xv"

text \<open>One pass of the body of \<open>for i in sample_indices\<close> in \<open>_epoch_factory_sparse_SAGA\<close>.\<close>

definition saga_sample ::
  "(real \<Rightarrow> real \<Rightarrow> real) \<Rightarrow> prox \<Rightarrow> csr \<Rightarrow> real list \<Rightarrow> real \<Rightarrow> real \<Rightarrow> real \<Rightarrow> nat \<Rightarrow>
   saga_state \<Rightarrow> saga_state" where
  "saga_sample f_prime g_prox A b alpha beta step_size i s =
     (let p = predict A (x_vec s) i;
          grad_i = f_prime p (b ! i);
          mem_i = memory_gradient s ! i;
          x1 = update_coefficients A alpha step_size grad_i mem_i (gradient_average s) i (x_vec s);
          x2 = g_prox (step_size * beta) x1 0 (shape1 A);
          ga = update_memory_terms A grad_i (memory_gradient s) i (gradient_average s);
          mem = (memory_gradient s)[i := memory_gradient s ! i + (grad_i - mem_i)]
      in \<lparr>x_vec = x2, memory_gradient = mem, gradient_average = ga\<rparr>)"

definition saga_epoch ::
  "(real \<Rightarrow> real \<Rightarrow> real) \<Rightarrow> prox \<Rightarrow> csr \<Rightarrow> real list \<Rightarrow> real \<Rightarrow> real \<Rightarrow> real \<Rightarrow> nat list \<Rightarrow>
   saga_state \<Rightarrow> saga_state" where
  "saga_epoch f_prime g_prox A b alpha beta step_size sample_indices s =
     fold (saga_sample f_prime g_prox A b alpha beta step_size) sample_indices s"

section \<open>The gradient-average invariant\<close>

definition average_invariant :: "csr \<Rightarrow> real list \<Rightarrow> real list \<Rightarrow> bool" where
  "average_invariant A mem ga \<longleftrightarrow>
     (\<forall>j < shape1 A.
        ga ! j = sum_list (map (\<lambda>i. mem ! i * A_entry A i j) [0..<shape0 A]) / real (shape0 A))"

section \<open>Sparse block-support index\<close>

text \<open>
  \<open>_support_matrix\<close>. The arrays are written by index as in the source: \<open>BS_indices\<close> is
  allocated with one slot per stored entry of the matrix and cut to \<open>counter_indptr\<close> on return.
\<close>

definition support_visit ::
  "nat list \<Rightarrow> nat list \<Rightarrow> nat \<Rightarrow> nat list \<times> nat list \<times> nat \<Rightarrow> nat list \<times> nat list \<times> nat" where
  "support_visit A_indices g_blocks j = (\<lambda>(BS_indices, seen_blocks, counter_indptr).
     let g_idx = g_blocks ! (A_indices ! j)
     in if seen_blocks ! g_idx = 0
        then (BS_indices[counter_indptr := g_idx], seen_blocks[g_idx := 1], counter_indptr + 1)
        else (BS_indices, seen_blocks, counter_indptr))"

definition support_cleanup :: "nat list \<Rightarrow> nat \<Rightarrow> nat \<Rightarrow> nat list \<Rightarrow> nat list" where
  "support_cleanup BS_indices lo hi seen_blocks =
     fold (\<lambda>j seen. seen[BS_indices ! j := 0]) [lo..<hi] seen_blocks"

definition support_row ::
  "nat list \<Rightarrow> nat list \<Rightarrow> nat list \<Rightarrow> nat \<Rightarrow>
   nat list \<times> nat list \<times> nat list \<times> nat \<Rightarrow> nat list \<times> nat list \<times> nat list \<times> nat" where
  "support_row A_indices A_indptr g_blocks i = (\<lambda>(BS_indices, BS_indptr, seen_blocks, counter_indptr).
     let low = A_indptr ! i;
         high = A_indptr ! (i + 1);
         (BS_indices, seen_blocks, counter_indptr) =
            fold (support_visit A_indices g_blocks) [low..<high]
              (BS_indices, seen_blocks, counter_indptr);
         BS_indptr = BS_indptr[i + 1 := counter_indptr];
         seen_blocks = support_cleanup BS_indices (BS_indptr ! i) counter_indptr seen_blocks
     in (BS_indices, BS_indptr, seen_blocks, counter_indptr))"

definition support_loop ::
  "nat list \<Rightarrow> nat list \<Rightarrow> nat list \<Rightarrow> nat \<Rightarrow> nat list \<times> nat list \<times> nat list \<times> nat" where
  "support_loop A_indices A_indptr g_blocks n_blocks =
     fold (support_row A_indices A_indptr g_blocks) [0..<length A_indptr - 1]
       (replicate (length A_indices) 0, (replicate (length A_indptr) 0)[0 := 0],
        replicate n_blocks 0, 0)"

definition support_matrix ::
  "nat list \<Rightarrow> nat list \<Rightarrow> nat list \<Rightarrow> nat \<Rightarrow> real list \<times> nat list \<times> nat list" where
  "support_matrix A_indices A_indptr g_blocks n_blocks =
     (case support_loop A_indices A_indptr g_blocks n_blocks of
        (BS_indices, BS_indptr, seen_blocks, counter_indptr) \<Rightarrow>
          (replicate counter_indptr 1, take counter_indptr BS_indices, BS_indptr))"

text \<open>Row \<open>i\<close> of the compressed result: the flat ids between two consecutive row pointers.\<close>

definition support_of_row :: "real list \<times> nat list \<times> nat list \<Rightarrow> nat \<Rightarrow> nat list" where
  "support_of_row BS i =
     (case BS of (BS_data, BS_indices, BS_indptr) \<Rightarrow>
        map (\<lambda>k. BS_indices ! k) [BS_indptr ! i ..< BS_indptr ! (i + 1)])"

text \<open>The block ids of the stored columns of row \<open>i\<close>, in storage order.\<close>

definition row_block_ids :: "nat list \<Rightarrow> nat list \<Rightarrow> nat list \<Rightarrow> nat \<Rightarrow> nat list" where
  "row_block_ids A_indices A_indptr g_blocks i =
     map (\<lambda>j. g_blocks ! (A_indices ! j)) [A_indptr ! i ..< A_indptr ! (i + 1)]"

text \<open>Keep the first occurrence of every element, in order.\<close>

definition first_occurrences :: "nat list \<Rightarrow> nat list" where
  "first_occurrences bs = rev (remdups (rev bs))"

definition support_wf :: "nat list \<Rightarrow> nat list \<Rightarrow> nat list \<Rightarrow> nat \<Rightarrow> bool" where
  "support_wf A_indices A_indptr g_blocks n_blocks \<longleftrightarrow>
     A_indptr \<noteq> [] \<and> sorted A_indptr \<and>
     list_all (\<lambda>p. p \<le> length A_indices) A_indptr \<and>
     list_all (\<lambda>j. j < length g_blocks) A_indices \<and>
     list_all (\<lambda>g. g < n_blocks) g_blocks"

section \<open>Block structure computed by the factories\<close>

text \<open>
  \<open>unique_blocks = np.unique(g_blocks)\<close>, \<open>n_blocks = unique_blocks.size\<close> and the assertion
  \<open>np.all(unique_blocks == np.arange(n_blocks))\<close>.
\<close>

definition n_blocks_of :: "nat list \<Rightarrow> nat" where
  "n_blocks_of blocks = length (remdups blocks)"

definition blocks_contiguous :: "nat list \<Rightarrow> bool" where
  "blocks_contiguous blocks \<longleftrightarrow> sort (remdups blocks) = [0..<n_blocks_of blocks]"

text \<open>
  \<open>reverse_blocks.tocsr().indptr\<close>: the boolean matrix has one entry per feature, in the row
  of its block, so the row pointer of block \<open>h\<close> is the number of features in smaller blocks.
\<close>

definition reverse_indptr :: "nat list \<Rightarrow> nat \<Rightarrow> nat \<Rightarrow> nat list" where
  "reverse_indptr blocks n_blocks n_feat =
     map (\<lambda>h. length (filter (\<lambda>j. blocks ! j < h) [0..<n_feat])) [0..<n_blocks + 1]"

text \<open>
  \<open>BS.sum(0)\<close>: all stored values are one, so a column sum counts the rows that list the block.
\<close>

definition column_sums :: "nat list \<Rightarrow> nat \<Rightarrow> real list" where
  "column_sums BS_indices n_cols = map (\<lambda>h. real (count_list BS_indices h)) [0..<n_cols]"

text \<open>\<open>d_h[idx] = n_samples / d_h[idx]; d_h[~idx] = 1\<close>.\<close>

definition block_weights :: "nat \<Rightarrow> real list \<Rightarrow> real list" where
  "block_weights n d = map (\<lambda>c. if c \<noteq> 0 then real n / c else 1) d"

text \<open>The loop filling \<open>d_weights\<close>; numpy raises IndexError on an index past the end.\<close>

definition fill_d_weights :: "nat \<Rightarrow> nat \<Rightarrow> nat list \<Rightarrow> real list \<Rightarrow> error + real list" where
  "fill_d_weights n_feat n_blocks RB_indptr dh =
     fold (\<lambda>h acc.
             fold (\<lambda>b_j acc.
                     case acc of
                       Inl e \<Rightarrow> Inl e
                     | Inr dw \<Rightarrow>
                         if h < length dh \<and> b_j < length dw
                         then Inr (dw[b_j := 1 / dh ! h]) else Inl IndexError)
               [RB_indptr ! h ..< RB_indptr ! (h + 1)] acc)
       [0..<n_blocks] (Inr (replicate n_feat 0))"

text \<open>
  \<open>_epoch_factory_sparse_SAGA\<close>, as far as it can fail: the kernel it returns uses none of the
  block structures (its proximal step runs over the full feature range), so only the assertion
  and the Python-level read \<open>g_blocks[j_feat]\<close> for \<open>j_feat < n_features\<close> are kept.
\<close>

definition epoch_factory_sparse_SAGA :: "nat list \<Rightarrow> csr \<Rightarrow> error + unit" where
  "epoch_factory_sparse_SAGA g_blocks A =
     (if \<not> blocks_contiguous g_blocks then Inl AssertionError
      else if length g_blocks < shape1 A then Inl IndexError
      else Inr ())"

text \<open>
  The values \<open>_factory_sparse_PSSAGA\<close> computes once and its kernel closes over
  (\<open>np.bool\<close> and \<open>np.float\<close> are the aliases of \<open>bool\<close> and \<open>float\<close>). The support
  matrix is rebuilt by scipy from the three arrays alone, which takes the number of columns to
  be the largest stored id plus one and fails on an empty id array.
\<close>

record pssaga_env =
  BS_h_indices :: "nat list"
  BS_h_indptr :: "nat list"
  RB_h_indptr :: "nat list"
  d_h :: "real list"
  d_weights :: "real list"

definition factory_sparse_PSSAGA :: "nat list \<Rightarrow> csr \<Rightarrow> error + pssaga_env" where
  "factory_sparse_PSSAGA h_blocks A =
     (if \<not> blocks_contiguous h_blocks then Inl AssertionError
      else
        let n_blocks_h = n_blocks_of h_blocks in
        case support_matrix (indices A) (indptr A) h_blocks n_blocks_h of
          (BS_data, BS_indices, BS_indptr) \<Rightarrow>
            if BS_indices = [] then Inl (ValueError ''unable to infer matrix dimensions'')
            else if length h_blocks < shape1 A then Inl IndexError
            else
              let RB = reverse_indptr h_blocks n_blocks_h (shape1 A);
                  dh = block_weights (shape0 A)
                         (column_sums BS_indices (Max (set BS_indices) + 1))
              in (case fill_d_weights (shape1 A) n_blocks_h RB dh of
                    Inl e \<Rightarrow> Inl e
                  | Inr dw \<Rightarrow>
                      Inr \<lparr>BS_h_indices = BS_indices, BS_h_indptr = BS_indptr,
                           RB_h_indptr = RB, d_h = dh, d_weights = dw\<rparr>))"

section \<open>PSSAGA epoch kernel\<close>

text \<open>
  The body of \<open>for i in sample_indices\<close> in \<open>_factory_sparse_PSSAGA\<close>. The first component of
  the pair is the local buffer \<open>grad_est\<close>, allocated once per call of the kernel.
\<close>

definition prox_blocks ::
  "prox2 \<Rightarrow> pssaga_env \<Rightarrow> real \<Rightarrow> nat \<Rightarrow> real list \<times> real list \<Rightarrow> real list \<times> real list" where
  "prox_blocks g_prox E step i =
     fold (\<lambda>h_j (yv, xv).
             let h = BS_h_indices E ! h_j
             in g_prox step yv xv (RB_h_indptr E ! h) (RB_h_indptr E ! (h + 1)) (d_weights E))
       [BS_h_indptr E ! i ..< BS_h_indptr E ! (i + 1)]"

definition gradient_estimate :: "csr \<Rightarrow> real \<Rightarrow> real list \<Rightarrow> nat \<Rightarrow> real list \<Rightarrow> real list" where
  "gradient_estimate A grad_i mem i grad_est =
     fold (\<lambda>j ge. let j_idx = indices A ! j
                   in ge[j_idx := (grad_i - mem ! i) * data A ! j])
       (row_range A i) grad_est"

definition block_step ::
  "prox \<Rightarrow> pssaga_env \<Rightarrow> real \<Rightarrow> real \<Rightarrow> real \<Rightarrow> real list \<Rightarrow> real list \<Rightarrow> real list \<Rightarrow> nat \<Rightarrow>
   real list \<times> real list \<Rightarrow> real list \<times> real list" where
  "block_step h_prox E alpha gamma step_size xv ga grad_est h = (\<lambda>(yv, zv).
     let lo = RB_h_indptr E ! h;
         hi = RB_h_indptr E ! (h + 1);
         zv = fold (\<lambda>b_j zv.
                      let bias_term = d_h E ! h * (ga ! b_j + alpha * xv ! b_j)
                      in zv[b_j := 2 * xv ! b_j - yv ! b_j - step_size * (grad_est ! b_j + bias_term)])
                [lo..<hi] zv;
         zv = h_prox (d_h E ! h * step_size * gamma) zv lo hi;
         yv = fold (\<lambda>b_j yv. yv[b_j := yv ! b_j - (xv ! b_j - zv ! b_j)]) [lo..<hi] yv
     in (yv, zv))"

definition update_memory_terms_clearing ::
  "csr \<Rightarrow> real \<Rightarrow> real list \<Rightarrow> nat \<Rightarrow> real list \<times> real list \<Rightarrow> real list \<times> real list" where
  "update_memory_terms_clearing A grad_i mem i =
     fold (\<lambda>j (ga, ge).
             let j_idx = indices A ! j
             in (ga[j_idx := ga ! j_idx + (grad_i - mem ! i) * data A ! j / real (shape0 A)],
                 ge[j_idx := 0]))
       (row_range A i)"

definition pssaga_sample ::
  "(real \<Rightarrow> real \<Rightarrow> real) \<Rightarrow> prox2 \<Rightarrow> prox \<Rightarrow> pssaga_env \<Rightarrow> csr \<Rightarrow> real list \<Rightarrow>
   real \<Rightarrow> real \<Rightarrow> real \<Rightarrow> real \<Rightarrow> nat \<Rightarrow> real list \<times> pssaga_state \<Rightarrow> real list \<times> pssaga_state" where
  "pssaga_sample f_prime g_prox h_prox E A b alpha beta gamma step_size i = (\<lambda>(grad_est, s).
     let (y1, x1) = prox_blocks g_prox E (step_size * beta) i (y_vec s, x_vec s);
         p = predict A x1 i;
         grad_i = f_prime p (b ! i);
         ge1 = gradient_estimate A grad_i (memory_gradient s) i grad_est;
         (y2, z2) = fold (\<lambda>h_j. block_step h_prox E alpha gamma step_size x1
                                   (gradient_average s) ge1 (BS_h_indices E ! h_j))
                      [BS_h_indptr E ! i ..< BS_h_indptr E ! (i + 1)] (y1, z_vec s);
         (ga, ge2) = update_memory_terms_clearing A grad_i (memory_gradient s) i
                       (gradient_average s, ge1);
         mem = (memory_gradient s)[i := grad_i]
     in (ge2, \<lparr>x_vec = x1, memory_gradient = mem, gradient_average = ga,
              y_vec = y2, z_vec = z2\<rparr>))"

definition pssaga_epoch ::
  "(real \<Rightarrow> real \<Rightarrow> real) \<Rightarrow> prox2 \<Rightarrow> prox \<Rightarrow> pssaga_env \<Rightarrow> csr \<Rightarrow> real list \<Rightarrow>
   real \<Rightarrow> real \<Rightarrow> real \<Rightarrow> real \<Rightarrow> nat list \<Rightarrow> pssaga_state \<Rightarrow> pssaga_state" where
  "pssaga_epoch f_prime g_prox h_prox E A b alpha beta gamma step_size sample_indices s =
     snd (fold (pssaga_sample f_prime g_prox h_prox E A b alpha beta gamma step_size)
            sample_indices (replicate (shape1 A) 0, s))"

section \<open>The drivers\<close>

text \<open>
  What numpy's generators can return: \<open>np.random.randint(low=0, high=n, size=n)\<close> gives \<open>n\<close>
  integers, each in \<open>[0, n)\<close>, drawn independently; \<open>np.random.permutation(n)\<close> gives a
  rearrangement of \<open>0, ..., n - 1\<close>. The drivers take the outcome of the draw of iteration
  \<open>it\<close> as \<open>draws it\<close>.
\<close>

definition randint_outcome :: "nat \<Rightarrow> nat list \<Rightarrow> bool" where
  "randint_outcome n idx \<longleftrightarrow> length idx = n \<and> list_all (\<lambda>i. i < n) idx"

definition permutation_outcome :: "nat \<Rightarrow> nat list \<Rightarrow> bool" where
  "permutation_outcome n idx \<longleftrightarrow> mset idx = mset [0..<n]"

record 'st optimize_result =
  final :: 'st
  success :: bool
  nit :: nat
  certificate :: real

text \<open>
  The loop \<open>for it in range(max_iter)\<close> for \<open>max_iter = k + 1\<close>, entered at iteration \<open>it\<close>:
  one epoch, the certificate, and the \<open>break\<close> when the certificate is below \<open>tol\<close>.
\<close>

fun run_epochs ::
  "('d \<Rightarrow> 'st \<Rightarrow> 'st) \<Rightarrow> ('st \<Rightarrow> real) \<Rightarrow> real \<Rightarrow> (nat \<Rightarrow> 'd) \<Rightarrow> nat \<Rightarrow> nat \<Rightarrow> 'st \<Rightarrow>
   'st optimize_result" where
  "run_epochs epoch cert tol draws it 0 s =
     (let s' = epoch (draws it) s; c = cert s'
      in \<lparr>final = s', success = (c < tol), nit = it, certificate = c\<rparr>)"
| "run_epochs epoch cert tol draws it (Suc k) s =
     (let s' = epoch (draws it) s; c = cert s'
      in if c < tol then \<lparr>final = s', success = True, nit = it, certificate = c\<rparr>
         else run_epochs epoch cert tol draws (Suc it) k s')"

text \<open>
  With \<open>max_iter = 0\<close> the loop body never runs and the \<open>return\<close> reads the unbound locals
  \<open>it\<close> and \<open>certificate\<close>.
\<close>

definition iterate_epochs ::
  "('d \<Rightarrow> 'st \<Rightarrow> 'st) \<Rightarrow> ('st \<Rightarrow> real) \<Rightarrow> real \<Rightarrow> (nat \<Rightarrow> 'd) \<Rightarrow> nat \<Rightarrow> 'st \<Rightarrow>
   error + 'st optimize_result" where
  "iterate_epochs epoch cert tol draws max_iter s =
     (case max_iter of
        0 \<Rightarrow> Inl UnboundLocalError
      | Suc k \<Rightarrow> Inr (run_epochs epoch cert tol draws 0 k s))"

subsection \<open>fmin_SAGA (with \<open>n_jobs = 1\<close>, no callback, no trace)\<close>

definition saga_prox_default :: prox where
  "saga_prox_default step_size xv low high = xv"

definition saga_blocks_default :: "nat list option \<Rightarrow> nat \<Rightarrow> nat list" where
  "saga_blocks_default g_blocks n_feat =
     (case g_blocks of None \<Rightarrow> replicate n_feat 0 | Some g \<Rightarrow> g)"

definition saga_certificate :: "prox \<Rightarrow> csr \<Rightarrow> real \<Rightarrow> real \<Rightarrow> real \<Rightarrow> saga_state \<Rightarrow> real" where
  "saga_certificate g_prox A alpha beta step_size s =
     (let grad = vadd (gradient_average s) (smul alpha (x_vec s));
          z = vsub (x_vec s) (smul step_size grad);
          z = g_prox (beta * step_size) z 0 (shape1 A)
      in linalg_norm (vsub (x_vec s) z))"

text \<open>
  Everything up to the loop: the checks, the memory terms and the warm-up call of the kernel
  on \<open>x.copy()\<close>, \<open>memory_gradient\<close>, \<open>gradient_average\<close> and \<open>np.array([0])\<close>.
\<close>

definition saga_warm_up ::
  "(real \<Rightarrow> real \<Rightarrow> real) \<Rightarrow> prox \<Rightarrow> csr \<Rightarrow> real list \<Rightarrow> real \<Rightarrow> real \<Rightarrow> real \<Rightarrow>
   saga_state \<Rightarrow> saga_state" where
  "saga_warm_up f_prime g_prox A b alpha beta step_size s =
     (let w = saga_epoch f_prime g_prox A b alpha beta step_size [0] s
      in \<lparr>x_vec = x_vec s, memory_gradient = memory_gradient w,
          gradient_average = gradient_average w\<rparr>)"

definition saga_setup ::
  "(real \<Rightarrow> real \<Rightarrow> real) \<Rightarrow> csr \<Rightarrow> real list \<Rightarrow> real list \<Rightarrow> real \<Rightarrow> real \<Rightarrow> prox py_arg \<Rightarrow>
   real \<Rightarrow> nat list option \<Rightarrow> error + prox \<times> saga_state" where
  "saga_setup f_prime A b x0 alpha beta g_prox step_size g_blocks =
     (if length x0 \<noteq> shape1 A then Inl AssertionError
      else if shape0 A \<noteq> length b then Inl AssertionError
      else if step_size < 0 then Inl (ValueError [])
      else
        case (case g_prox of
                PyCallable f \<Rightarrow> Inr f
              | PyNone \<Rightarrow> Inr saga_prox_default
              | PyOther \<Rightarrow> Inl NotImplementedError) of
          Inl e \<Rightarrow> Inl e
        | Inr g_prox \<Rightarrow>
            (case epoch_factory_sparse_SAGA (saga_blocks_default g_blocks (shape1 A)) A of
               Inl e \<Rightarrow> Inl e
             | Inr u \<Rightarrow>
                 (let (mem, ga) = init_gradient f_prime A b (replicate (shape0 A) 0)
                                    (replicate (shape1 A) 0) (shape0 A)
                  in Inr (g_prox,
                          saga_warm_up f_prime g_prox A b alpha beta step_size
                            \<lparr>x_vec = x0, memory_gradient = mem, gradient_average = ga\<rparr>))))"

definition fmin_SAGA ::
  "(real \<Rightarrow> real \<Rightarrow> real) \<Rightarrow> csr \<Rightarrow> real list \<Rightarrow> real list \<Rightarrow> real \<Rightarrow> real \<Rightarrow> prox py_arg \<Rightarrow>
   real \<Rightarrow> nat list option \<Rightarrow> nat \<Rightarrow> real \<Rightarrow> (nat \<Rightarrow> nat list) \<Rightarrow>
   error + saga_state optimize_result" where
  "fmin_SAGA f_prime A b x0 alpha beta g_prox step_size g_blocks max_iter tol draws =
     (case saga_setup f_prime A b x0 alpha beta g_prox step_size g_blocks of
        Inl e \<Rightarrow> Inl e
      | Inr (g_prox, s) \<Rightarrow>
          iterate_epochs (saga_epoch f_prime g_prox A b alpha beta step_size)
            (saga_certificate g_prox A alpha beta step_size) tol draws max_iter s)"

subsection \<open>fmin_SAGA with \<open>n_jobs\<close> workers\<close>

text \<open>
  One iteration submits \<open>n_jobs\<close> calls of the kernel, each with a draw of its own, to a thread
  pool and waits for all of them; the certificate is computed after the join. With no job
  the state stays as it is, and with one job the state at the join is what the kernel
  returns. With two or more jobs the kernels run at the same time on the same arrays without
  locks (\<open>nogil=True\<close>), so what the arrays hold at the join depends on how the threads
  interleave: that outcome is the parameter \<open>joined\<close>. \<open>draws it j\<close> is the draw of job \<open>j\<close>
  in iteration \<open>it\<close>.
\<close>

definition saga_dispatch ::
  "(nat list list \<Rightarrow> saga_state \<Rightarrow> saga_state) \<Rightarrow> (real \<Rightarrow> real \<Rightarrow> real) \<Rightarrow> prox \<Rightarrow> csr \<Rightarrow>
   real list \<Rightarrow> real \<Rightarrow> real \<Rightarrow> real \<Rightarrow> nat list list \<Rightarrow> saga_state \<Rightarrow> saga_state" where
  "saga_dispatch joined f_prime g_prox A b alpha beta step_size perms s =
     (case perms of
        [] \<Rightarrow> s
      | [perm] \<Rightarrow> saga_epoch f_prime g_prox A b alpha beta step_size perm s
      | _ \<Rightarrow> joined perms s)"

definition fmin_SAGA_n_jobs ::
  "(nat list list \<Rightarrow> saga_state \<Rightarrow> saga_state) \<Rightarrow> (real \<Rightarrow> real \<Rightarrow> real) \<Rightarrow> csr \<Rightarrow>
   real list \<Rightarrow> real list \<Rightarrow> real \<Rightarrow> real \<Rightarrow> prox py_arg \<Rightarrow> real \<Rightarrow> nat list option \<Rightarrow>
   nat \<Rightarrow> nat \<Rightarrow> real \<Rightarrow> (nat \<Rightarrow> nat \<Rightarrow> nat list) \<Rightarrow> error + saga_state optimize_result" where
  "fmin_SAGA_n_jobs joined f_prime A b x0 alpha beta g_prox step_size g_blocks n_jobs max_iter
     tol draws =
     (case saga_setup f_prime A b x0 alpha beta g_prox step_size g_blocks of
        Inl e \<Rightarrow> Inl e
      | Inr (g_prox, s) \<Rightarrow>
          iterate_epochs (saga_dispatch joined f_prime g_prox A b alpha beta step_size)
            (saga_certificate g_prox A alpha beta step_size) tol
            (\<lambda>it. map (draws it) [0..<n_jobs]) max_iter s)"

subsection \<open>fmin_PSSAGA (no callback, no trace)\<close>

definition pssaga_g_prox_default :: prox2 where
  "pssaga_g_prox_default step_size yv xv low high weights =
     (yv, fold (\<lambda>i xv. xv[i := yv ! i]) [low..<high] xv)"

definition pssaga_h_prox_default :: prox where
  "pssaga_h_prox_default step_size zv low high = zv"

text \<open>
  The two places that fill in \<open>h_blocks\<close>: \<open>np.arange(n_features)\<close> in the branch taken when
  \<open>h_prox is None\<close>, and \<open>np.zeros(n_features)\<close> before the factory is called.
\<close>

definition pssaga_blocks_default :: "prox py_arg \<Rightarrow> nat list option \<Rightarrow> nat \<Rightarrow> nat list" where
  "pssaga_blocks_default h_prox h_blocks n_feat =
     (let h_blocks = (case h_prox of
                        PyNone \<Rightarrow> (case h_blocks of None \<Rightarrow> Some [0..<n_feat] | Some h \<Rightarrow> Some h)
                      | _ \<Rightarrow> h_blocks)
      in case h_blocks of None \<Rightarrow> replicate n_feat 0 | Some h \<Rightarrow> h)"

definition pssaga_certificate :: "pssaga_state \<Rightarrow> real" where
  "pssaga_certificate s = linalg_norm (vsub (x_vec s) (z_vec s))"

definition pssaga_setup ::
  "(real \<Rightarrow> real \<Rightarrow> real) \<Rightarrow> csr \<Rightarrow> real list \<Rightarrow> real list \<Rightarrow> prox2 py_arg \<Rightarrow> prox py_arg \<Rightarrow>
   real \<Rightarrow> real \<Rightarrow> real \<Rightarrow> real \<Rightarrow> nat list option \<Rightarrow>
   error + (prox2 \<times> prox \<times> pssaga_env) \<times> pssaga_state" where
  "pssaga_setup f_prime A b x0 g_prox h_prox alpha beta gamma step_size h_blocks =
     (case (case g_prox of
              PyCallable f \<Rightarrow> Inr f
            | PyNone \<Rightarrow> Inr pssaga_g_prox_default
            | PyOther \<Rightarrow> Inl NotImplementedError) of
        Inl e \<Rightarrow> Inl e
      | Inr g_prox' \<Rightarrow>
          (case (case h_prox of
                   PyCallable f \<Rightarrow> Inr f
                 | PyNone \<Rightarrow> Inr pssaga_h_prox_default
                 | PyOther \<Rightarrow> Inl NotImplementedError) of
             Inl e \<Rightarrow> Inl e
           | Inr h_prox' \<Rightarrow>
               (if shape0 A \<noteq> length b then Inl AssertionError
                else if step_size < 0 then Inl (ValueError [])
                else
                  (case factory_sparse_PSSAGA
                          (pssaga_blocks_default h_prox h_blocks (shape1 A)) A of
                     Inl e \<Rightarrow> Inl e
                   | Inr E \<Rightarrow>
                       (let (mem, ga) = init_gradient f_prime A b (replicate (shape0 A) 0)
                                          (replicate (shape1 A) 0) (shape0 A)
                        in Inr ((g_prox', h_prox', E),
                                pssaga_epoch f_prime g_prox' h_prox' E A b alpha beta gamma
                                  step_size [0]
                                  \<lparr>x_vec = x0, memory_gradient = mem, gradient_average = ga,
                                   y_vec = x0, z_vec = x0\<rparr>))))))"

definition fmin_PSSAGA ::
  "(real \<Rightarrow> real \<Rightarrow> real) \<Rightarrow> csr \<Rightarrow> real list \<Rightarrow> real list \<Rightarrow> prox2 py_arg \<Rightarrow> prox py_arg \<Rightarrow>
   real \<Rightarrow> real \<Rightarrow> real \<Rightarrow> real \<Rightarrow> nat list option \<Rightarrow> nat \<Rightarrow> real \<Rightarrow> (nat \<Rightarrow> nat list) \<Rightarrow>
   error + pssaga_state optimize_result" where
  "fmin_PSSAGA f_prime A b x0 g_prox h_prox alpha beta gamma step_size h_blocks max_iter tol draws =
     (case pssaga_setup f_prime A b x0 g_prox h_prox alpha beta gamma step_size h_blocks of
        Inl e \<Rightarrow> Inl e
      | Inr ((g_prox', h_prox', E), s) \<Rightarrow>
          iterate_epochs
            (pssaga_epoch f_prime g_prox' h_prox' E A b alpha beta gamma step_size)
            pssaga_certificate tol draws max_iter s)"

section \<open>Auxiliary predicates and a worked instance\<close>

text \<open>The two tables have the sizes the drivers allocate and satisfy the invariant.\<close>

definition tables_ok :: "csr \<Rightarrow> real list \<Rightarrow> real list \<Rightarrow> bool" where
  "tables_ok A mem ga \<longleftrightarrow>
     length mem = shape0 A \<and> length ga = shape1 A \<and> average_invariant A mem ga"

text \<open>The matrix with rows \<open>(1, 0)\<close> and \<open>(2, 1)\<close>, and what the PSSAGA factory computes for it
  with one block per feature.\<close>

definition example_A :: csr where
  "example_A = \<lparr>data = [1, 2, 1], indices = [0, 0, 1], indptr = [0, 1, 3], shape0 = 2, shape1 = 2\<rparr>"

definition example_env :: pssaga_env where
  "example_env = \<lparr>BS_h_indices = [0, 0, 1], BS_h_indptr = [0, 1, 3], RB_h_indptr = [0, 1, 2],
                   d_h = [1, 2], d_weights = [1, 1 / 2]\<rparr>"

text \<open>The one-by-one matrix \<open>(1)\<close> and the one-by-two matrix \<open>(0, 1)\<close>.\<close>

definition unit_A :: csr where
  "unit_A = \<lparr>data = [1], indices = [0], indptr = [0, 1], shape0 = 1, shape1 = 1\<rparr>"

definition wide_A :: csr where
  "wide_A = \<lparr>data = [1], indices = [1], indptr = [0, 1], shape0 = 1, shape1 = 2\<rparr>"

text \<open>The state after the first \<open>m\<close> epochs of a run that is never stopped.\<close>

fun after_epochs :: "('d \<Rightarrow> 'st \<Rightarrow> 'st) \<Rightarrow> (nat \<Rightarrow> 'd) \<Rightarrow> nat \<Rightarrow> 'st \<Rightarrow> 'st" where
  "after_epochs epoch draws 0 s = s"
| "after_epochs epoch draws (Suc m) s = epoch (draws m) (after_epochs epoch draws m s)"

subsection \<open>The certificate as the specification words it\<close>

text \<open>
  The exact gradient at \<open>x\<close> of the smooth part
  \<open>(1/n) \<Sum>i. f(a_i^T x, b_i) + alpha/2 * |x|^2\<close>, and the distance from \<open>x\<close> to the point
  reached by one full proximal gradient step from \<open>x\<close>.
\<close>

definition spec_full_gradient ::
  "(real \<Rightarrow> real \<Rightarrow> real) \<Rightarrow> csr \<Rightarrow> real list \<Rightarrow> real \<Rightarrow> real list \<Rightarrow> real list" where
  "spec_full_gradient f_prime A b alpha xv =
     map (\<lambda>j. sum_list (map (\<lambda>i. f_prime (sum_list (map (\<lambda>l. A_entry A i l * xv ! l)
                                                    [0..<shape1 A])) (b ! i)
                                * A_entry A i j) [0..<shape0 A]) / real (shape0 A)
              + alpha * xv ! j)
       [0..<shape1 A]"

definition spec_certificate ::
  "prox \<Rightarrow> (real \<Rightarrow> real \<Rightarrow> real) \<Rightarrow> csr \<Rightarrow> real list \<Rightarrow> real \<Rightarrow> real \<Rightarrow> real \<Rightarrow> real list \<Rightarrow> real" where
  "spec_certificate g_prox f_prime A b alpha beta step_size xv =
     (let z = g_prox (beta * step_size)
                (vsub xv (smul step_size (spec_full_gradient f_prime A b alpha xv)))
                0 (shape1 A)
      in linalg_norm (vsub xv z))"

text \<open>The two-by-two identity matrix.\<close>

definition eye2_A :: csr where
  "eye2_A = \<lparr>data = [1, 1], indices = [0, 1], indptr = [0, 1, 2], shape0 = 2, shape1 = 2\<rparr>"

text \<open>What \<open>_factory_sparse_PSSAGA\<close> computes for the one-by-one matrix with the single block,
  and for the one-by-two matrix with one block per feature and with a single block.\<close>

definition unit_env :: pssaga_env where
  "unit_env = \<lparr>BS_h_indices = [0], BS_h_indptr = [0, 1], RB_h_indptr = [0, 1], d_h = [1],
                d_weights = [1]\<rparr>"

definition wide_fine_env :: pssaga_env where
  "wide_fine_env = \<lparr>BS_h_indices = [1], BS_h_indptr = [0, 1], RB_h_indptr = [0, 1, 2],
                     d_h = [1, 1], d_weights = [1, 1]\<rparr>"

definition wide_single_env :: pssaga_env where
  "wide_single_env = \<lparr>BS_h_indices = [0], BS_h_indptr = [0, 1], RB_h_indptr = [0, 2],
                       d_h = [1], d_weights = [1, 1]\<rparr>"

text \<open>
  What the loop entered at iteration \<open>it\<close> returns, in terms of the run that is never
  stopped: the state after iteration \<open>nit\<close>, its certificate, the flag, and no smaller
  certificate at an earlier iteration.
\<close>

definition loop_post ::
  "('d \<Rightarrow> 'st \<Rightarrow> 'st) \<Rightarrow> ('st \<Rightarrow> real) \<Rightarrow> real \<Rightarrow> (nat \<Rightarrow> 'd) \<Rightarrow> nat \<Rightarrow> nat \<Rightarrow> 'st \<Rightarrow>
   'st optimize_result \<Rightarrow> bool" where
  "loop_post E C tol draws it bound s0 r \<longleftrightarrow>
     final r = after_epochs E draws (Suc (nit r)) s0 \<and>
     certificate r = C (final r) \<and>
     success r = (C (final r) < tol) \<and>
     it \<le> nit r \<and> nit r \<le> bound \<and>
     (\<forall>m. it \<le> m \<and> m < nit r \<longrightarrow> \<not> C (after_epochs E draws (Suc m) s0) < tol) \<and>
     (\<not> success r \<longrightarrow> nit r = bound)"


text \<open>Recording a block id unless it has been recorded, and the state of \<open>_support_matrix\<close>
  inside a row: \<open>pre\<close> is what earlier rows wrote, \<open>acc\<close> what this row has written so far.\<close>

definition note_block :: "nat \<Rightarrow> nat list \<Rightarrow> nat list" where
  "note_block b acc = (if b \<in> set acc then acc else acc @ [b])"

definition row_state ::
  "nat list \<Rightarrow> nat list \<Rightarrow> nat \<Rightarrow> nat list \<times> nat list \<times> nat \<Rightarrow> bool" where
  "row_state pre acc n_blocks st \<longleftrightarrow>
     (case st of (BS_indices, seen_blocks, counter_indptr) \<Rightarrow>
        counter_indptr = length pre + length acc \<and>
        take counter_indptr BS_indices = pre @ acc \<and>
        length seen_blocks = n_blocks \<and>
        (\<forall>b < n_blocks. seen_blocks ! b = (if b \<in> set acc then 1 else 0)))"

text \<open>The flat ids of the first \<open>m\<close> rows, and the state of \<open>_support_matrix\<close> between rows.\<close>

definition flat_support :: "nat list \<Rightarrow> nat list \<Rightarrow> nat list \<Rightarrow> nat \<Rightarrow> nat list" where
  "flat_support A_indices A_indptr g_blocks m =
     concat (map (\<lambda>i. first_occurrences (row_block_ids A_indices A_indptr g_blocks i)) [0..<m])"

definition outer_state ::
  "nat list \<Rightarrow> nat list \<Rightarrow> nat list \<Rightarrow> nat \<Rightarrow> nat \<Rightarrow>
   nat list \<times> nat list \<times> nat list \<times> nat \<Rightarrow> bool" where
  "outer_state A_indices A_indptr g_blocks n_blocks m st \<longleftrightarrow>
     (case st of (BS_indices, BS_indptr, seen_blocks, counter_indptr) \<Rightarrow>
        length BS_indices = length A_indices \<and>
        length BS_indptr = length A_indptr \<and>
        seen_blocks = replicate n_blocks 0 \<and>
        take counter_indptr BS_indices = flat_support A_indices A_indptr g_blocks m \<and>
        counter_indptr = length (flat_support A_indices A_indptr g_blocks m) \<and>
        (\<forall>k \<le> m. BS_indptr ! k = length (flat_support A_indices A_indptr g_blocks k)) \<and>
        counter_indptr \<le> A_indptr ! m)"

section \<open>Running the drivers on concrete inputs\<close>

lemma sqrt_16th: "sqrt (1 / 16) = 1 / 4"
  by (rule real_sqrt_unique) (simp_all add: power2_eq_square)

lemma sqrt_25_256th: "sqrt (25 / 256) = 5 / 16"
  by (rule real_sqrt_unique) (simp_all add: power2_eq_square)

lemma sqrt_quarter: "sqrt (1 / 4) = 1 / 2"
  by (rule real_sqrt_unique) (simp_all add: power2_eq_square)

lemmas certificate_defs =
  saga_certificate_def pssaga_certificate_def vadd_def vsub_def smul_def linalg_norm_def
  saga_prox_default_def

subsection \<open>fmin_SAGA on the one-by-one matrix\<close>

lemma unit_saga_factory:
  "epoch_factory_sparse_SAGA (saga_blocks_default None (shape1 unit_A)) unit_A = Inr ()"
  by code_simp

lemma unit_init:
  "init_gradient deriv_squared unit_A [1] (replicate (shape0 unit_A) 0)
     (replicate (shape1 unit_A) 0) (shape0 unit_A) = ([- 1], [- 1])"
  by code_simp

lemma unit_shape: "shape0 unit_A = 1" "shape1 unit_A = 1"
  by (simp_all add: unit_A_def)

lemma unit_saga_warm_up:
  "saga_warm_up deriv_squared saga_prox_default unit_A [1] 0 0 eta
     \<lparr>x_vec = [0], memory_gradient = [- 1], gradient_average = [- 1]\<rparr> =
   \<lparr>x_vec = [0], memory_gradient = [- 1], gradient_average = [- 1]\<rparr>"
  by (simp add: saga_warm_up_def saga_epoch_def saga_sample_def update_memory_terms_def
        predict_def row_range_def deriv_squared_def unit_A_def upt_rec Let_def)

lemma unit_saga_epoch:
  "saga_epoch deriv_squared saga_prox_default unit_A [1] 0 0 eta [0]
     \<lparr>x_vec = [0], memory_gradient = [- 1], gradient_average = [- 1]\<rparr> =
   \<lparr>x_vec = [eta], memory_gradient = [- 1], gradient_average = [- 1]\<rparr>"
  by (simp add: saga_epoch_def saga_sample_def update_memory_terms_def update_coefficients_def
        saga_prox_default_def predict_def row_range_def deriv_squared_def unit_A_def upt_rec
        Let_def)

lemma unit_saga_setup:
  "0 \<le> eta \<Longrightarrow> saga_setup deriv_squared unit_A [1] [0] 0 0 PyNone eta None =
     Inr (saga_prox_default, \<lparr>x_vec = [0], memory_gradient = [- 1], gradient_average = [- 1]\<rparr>)"
  by (simp only: saga_setup_def unit_saga_factory unit_init)
     (simp add: unit_saga_warm_up unit_shape)

lemma run_saga_zero_step:
  "fmin_SAGA deriv_squared unit_A [1] [0] 0 0 PyNone 0 None 1 (3 / 10) (\<lambda>it. [0]) =
   Inr \<lparr>final = \<lparr>x_vec = [0], memory_gradient = [- 1], gradient_average = [- 1]\<rparr>,
        success = True, nit = 0, certificate = 0\<rparr>"
  by (simp add: fmin_SAGA_def unit_saga_setup iterate_epochs_def unit_saga_epoch
        certificate_defs unit_shape Let_def)

lemma run_saga_half_step:
  "fmin_SAGA deriv_squared unit_A [1] [0] 0 0 PyNone (1 / 2) None 1 (3 / 10) (\<lambda>it. [0]) =
   Inr \<lparr>final = \<lparr>x_vec = [1 / 2], memory_gradient = [- 1], gradient_average = [- 1]\<rparr>,
        success = False, nit = 0, certificate = 1 / 2\<rparr>"
  by (simp add: fmin_SAGA_def unit_saga_setup iterate_epochs_def unit_saga_epoch
        certificate_defs unit_shape sqrt_quarter Let_def)

lemma run_saga_long_x0:
  "fmin_SAGA deriv_squared unit_A [1] [0, 0] 0 0 PyNone (1 / 2) None 1 (3 / 10) (\<lambda>it. [0]) =
   Inl AssertionError"
  by (simp add: fmin_SAGA_def saga_setup_def unit_shape)

lemma spec_certificate_half_step:
  "spec_certificate saga_prox_default deriv_squared unit_A [1] 0 0 (1 / 2) [1 / 2] = 1 / 4"
  by (simp add: spec_certificate_def spec_full_gradient_def A_entry_def row_range_def
        saga_prox_default_def vsub_def smul_def linalg_norm_def deriv_squared_def unit_A_def
        upt_rec sqrt_16th)


subsection \<open>fmin_SAGA on the identity matrix, with a repeated index\<close>

lemma eye2_shape: "shape0 eye2_A = 2" "shape1 eye2_A = 2"
  by (simp_all add: eye2_A_def)

lemma eye2_saga_factory:
  "epoch_factory_sparse_SAGA (saga_blocks_default None (shape1 eye2_A)) eye2_A = Inr ()"
  by code_simp

lemma eye2_init:
  "init_gradient deriv_squared eye2_A [1, 1] (replicate (shape0 eye2_A) 0)
     (replicate (shape1 eye2_A) 0) (shape0 eye2_A) = ([- 1, - 1], [- (1 / 2), - (1 / 2)])"
  by code_simp

lemma eye2_saga_warm_up:
  "saga_warm_up deriv_squared saga_prox_default eye2_A [1, 1] 0 0 (1 / 2)
     \<lparr>x_vec = [0, 0], memory_gradient = [- 1, - 1], gradient_average = [- (1 / 2), - (1 / 2)]\<rparr> =
   \<lparr>x_vec = [0, 0], memory_gradient = [- 1, - 1], gradient_average = [- (1 / 2), - (1 / 2)]\<rparr>"
  by code_simp

lemma eye2_saga_epoch:
  "saga_epoch deriv_squared saga_prox_default eye2_A [1, 1] 0 0 (1 / 2) [0, 0]
     \<lparr>x_vec = [0, 0], memory_gradient = [- 1, - 1], gradient_average = [- (1 / 2), - (1 / 2)]\<rparr> =
   \<lparr>x_vec = [3 / 8, 0], memory_gradient = [- (3 / 4), - 1], gradient_average = [- (3 / 8), - (1 / 2)]\<rparr>"
  by code_simp

lemma run_saga_repeated_index:
  "fmin_SAGA deriv_squared eye2_A [1, 1] [0, 0] 0 0 PyNone (1 / 2) None 1 (3 / 10)
     (\<lambda>it. [0, 0]) =
   Inr \<lparr>final = \<lparr>x_vec = [3 / 8, 0], memory_gradient = [- (3 / 4), - 1],
                 gradient_average = [- (3 / 8), - (1 / 2)]\<rparr>,
        success = False, nit = 0, certificate = 5 / 16\<rparr>"
  by (simp only: fmin_SAGA_def saga_setup_def eye2_saga_factory eye2_init)
     (simp add: eye2_saga_warm_up eye2_saga_epoch eye2_shape iterate_epochs_def
        certificate_defs sqrt_25_256th Let_def)

subsection \<open>fmin_PSSAGA with a coefficient vector longer than the feature count\<close>

lemma unit_blocks: "pssaga_blocks_default PyNone None (shape1 unit_A) = [0]"
  by code_simp

lemma unit_pssaga_factory:
  "factory_sparse_PSSAGA [0] unit_A =
     Inr unit_env"
  by code_simp

lemma unit_pssaga_warm_up:
  "pssaga_epoch deriv_squared pssaga_g_prox_default pssaga_h_prox_default
     unit_env unit_A [1] 0 0 0 (1 / 2) [0]
     \<lparr>x_vec = [0, 0], memory_gradient = [- 1], gradient_average = [- 1],
      y_vec = [0, 0], z_vec = [0, 0]\<rparr> =
   \<lparr>x_vec = [0, 0], memory_gradient = [- 1], gradient_average = [- 1],
    y_vec = [1 / 2, 0], z_vec = [1 / 2, 0]\<rparr>"
  by code_simp

lemma unit_pssaga_epoch:
  "pssaga_epoch deriv_squared pssaga_g_prox_default pssaga_h_prox_default
     unit_env unit_A [1] 0 0 0 (1 / 2) [0]
     \<lparr>x_vec = [0, 0], memory_gradient = [- 1], gradient_average = [- 1],
      y_vec = [1 / 2, 0], z_vec = [1 / 2, 0]\<rparr> =
   \<lparr>x_vec = [1 / 2, 0], memory_gradient = [- (1 / 2)], gradient_average = [- (1 / 2)],
    y_vec = [3 / 4, 0], z_vec = [3 / 4, 0]\<rparr>"
  by code_simp

lemma run_pssaga_long_x0:
  "fmin_PSSAGA deriv_squared unit_A [1] [0, 0] PyNone PyNone 0 0 0 (1 / 2) None 1 (3 / 10)
     (\<lambda>it. [0]) =
   Inr \<lparr>final = \<lparr>x_vec = [1 / 2, 0], memory_gradient = [- (1 / 2)], gradient_average = [- (1 / 2)],
                 y_vec = [3 / 4, 0], z_vec = [3 / 4, 0]\<rparr>,
        success = True, nit = 0, certificate = 1 / 4\<rparr>"
  by (simp only: fmin_PSSAGA_def pssaga_setup_def unit_blocks unit_pssaga_factory unit_init)
     (simp add: unit_pssaga_warm_up unit_pssaga_epoch unit_shape iterate_epochs_def
        certificate_defs sqrt_16th Let_def)

subsection \<open>fmin_PSSAGA without \<open>h_prox\<close> and with the identity as \<open>h_prox\<close>\<close>

lemma wide_shape: "shape0 wide_A = 1" "shape1 wide_A = 2"
  by (simp_all add: wide_A_def)

lemma wide_init:
  "init_gradient deriv_squared wide_A [1] (replicate (shape0 wide_A) 0)
     (replicate (shape1 wide_A) 0) (shape0 wide_A) = ([- 1], [0, - 1])"
  by code_simp

lemma wide_blocks_none: "pssaga_blocks_default PyNone None (shape1 wide_A) = [0, 1]"
  by code_simp

lemma wide_blocks_identity:
  "pssaga_blocks_default (PyCallable pssaga_h_prox_default) None (shape1 wide_A) = [0, 0]"
  by code_simp

lemma wide_factory_fine:
  "factory_sparse_PSSAGA [0, 1] wide_A =
     Inr wide_fine_env"
  by code_simp

lemma wide_factory_single:
  "factory_sparse_PSSAGA [0, 0] wide_A =
     Inr wide_single_env"
  by code_simp

lemma wide_fine_warm_up:
  "pssaga_epoch deriv_squared pssaga_g_prox_default pssaga_h_prox_default
     wide_fine_env wide_A [1] 1 0 0 (1 / 2) [0]
     \<lparr>x_vec = [1, 0], memory_gradient = [- 1], gradient_average = [0, - 1],
      y_vec = [1, 0], z_vec = [1, 0]\<rparr> =
   \<lparr>x_vec = [1, 0], memory_gradient = [- 1], gradient_average = [0, - 1],
    y_vec = [1, 1 / 2], z_vec = [1, 1 / 2]\<rparr>"
  by code_simp

lemma wide_fine_epoch:
  "pssaga_epoch deriv_squared pssaga_g_prox_default pssaga_h_prox_default
     wide_fine_env wide_A [1] 1 0 0 (1 / 2) [0]
     \<lparr>x_vec = [1, 0], memory_gradient = [- 1], gradient_average = [0, - 1],
      y_vec = [1, 1 / 2], z_vec = [1, 1 / 2]\<rparr> =
   \<lparr>x_vec = [1, 1 / 2], memory_gradient = [- (1 / 2)], gradient_average = [0, - (1 / 2)],
    y_vec = [1, 1 / 2], z_vec = [1, 1 / 2]\<rparr>"
  by code_simp

lemma wide_single_warm_up:
  "pssaga_epoch deriv_squared pssaga_g_prox_default pssaga_h_prox_default
     wide_single_env wide_A [1] 1 0 0 (1 / 2) [0]
     \<lparr>x_vec = [1, 0], memory_gradient = [- 1], gradient_average = [0, - 1],
      y_vec = [1, 0], z_vec = [1, 0]\<rparr> =
   \<lparr>x_vec = [1, 0], memory_gradient = [- 1], gradient_average = [0, - 1],
    y_vec = [1 / 2, 1 / 2], z_vec = [1 / 2, 1 / 2]\<rparr>"
  by code_simp

lemma wide_single_epoch:
  "pssaga_epoch deriv_squared pssaga_g_prox_default pssaga_h_prox_default
     wide_single_env wide_A [1] 1 0 0 (1 / 2) [0]
     \<lparr>x_vec = [1, 0], memory_gradient = [- 1], gradient_average = [0, - 1],
      y_vec = [1 / 2, 1 / 2], z_vec = [1 / 2, 1 / 2]\<rparr> =
   \<lparr>x_vec = [1 / 2, 1 / 2], memory_gradient = [- (1 / 2)], gradient_average = [0, - (1 / 2)],
    y_vec = [1 / 4, 1 / 2], z_vec = [1 / 4, 1 / 2]\<rparr>"
  by code_simp

lemma run_pssaga_none:
  "fmin_PSSAGA deriv_squared wide_A [1] [1, 0] PyNone PyNone 1 0 0 (1 / 2) None 1 (3 / 10)
     (\<lambda>it. [0]) =
   Inr \<lparr>final = \<lparr>x_vec = [1, 1 / 2], memory_gradient = [- (1 / 2)], gradient_average = [0, - (1 / 2)],
                 y_vec = [1, 1 / 2], z_vec = [1, 1 / 2]\<rparr>,
        success = True, nit = 0, certificate = 0\<rparr>"
  by (simp only: fmin_PSSAGA_def pssaga_setup_def wide_blocks_none wide_factory_fine wide_init)
     (simp add: wide_fine_warm_up wide_fine_epoch wide_shape iterate_epochs_def
        certificate_defs Let_def)

lemma run_pssaga_identity:
  "fmin_PSSAGA deriv_squared wide_A [1] [1, 0] PyNone (PyCallable pssaga_h_prox_default) 1 0 0
     (1 / 2) None 1 (3 / 10) (\<lambda>it. [0]) =
   Inr \<lparr>final = \<lparr>x_vec = [1 / 2, 1 / 2], memory_gradient = [- (1 / 2)],
                 gradient_average = [0, - (1 / 2)], y_vec = [1 / 4, 1 / 2], z_vec = [1 / 4, 1 / 2]\<rparr>,
        success = True, nit = 0, certificate = 1 / 4\<rparr>"
  by (simp only: fmin_PSSAGA_def pssaga_setup_def wide_blocks_identity wide_factory_single
        wide_init)
     (simp add: wide_single_warm_up wide_single_epoch wide_shape iterate_epochs_def
        certificate_defs sqrt_16th Let_def)

section \<open>The gradient-average invariant is preserved\<close>

lemma sum_list_upt_sum: "sum_list (map f [0..<n]) = sum f {0..<n}"
  by (simp add: interv_sum_list_conv_sum_set_nat)

lemma scatter_add_length:
  "length (fold (\<lambda>k ga. ga[c k := ga ! c k + w k]) ks ga) = length (ga :: real list)"
  by (induction ks arbitrary: ga) simp_all

lemma scatter_add_nth:
  "j < length ga \<Longrightarrow>
   fold (\<lambda>k ga. ga[c k := ga ! c k + w k]) ks ga ! j =
   (ga ! j :: real) + sum_list (map (\<lambda>k. if c k = j then w k else 0) ks)"
proof (induction ks arbitrary: ga)
  case Nil
  then show ?case by simp
next
  case (Cons k ks)
  have "fold (\<lambda>k ga. ga[c k := ga ! c k + w k]) (k # ks) ga ! j =
        fold (\<lambda>k ga. ga[c k := ga ! c k + w k]) ks (ga[c k := ga ! c k + w k]) ! j"
    by simp
  also have "\<dots> = (ga[c k := ga ! c k + w k]) ! j + sum_list (map (\<lambda>k. if c k = j then w k else 0) ks)"
    using Cons.prems by (intro Cons.IH) simp
  also have "(ga[c k := ga ! c k + w k]) ! j = ga ! j + (if c k = j then w k else 0)"
    using Cons.prems by (simp add: nth_list_update)
  finally show ?case by simp
qed

lemma update_memory_terms_length:
  "length (update_memory_terms A g mem i ga) = length ga"
  unfolding update_memory_terms_def Let_def by (rule scatter_add_length)

lemma sum_list_scaled:
  "sum_list (map (\<lambda>k. if P k then c * f k / d else 0) ks) =
   c * sum_list (map (\<lambda>k. if P k then f k else 0) ks) / (d :: real)"
  by (induction ks) (simp_all add: distrib_left add_divide_distrib)

lemma update_memory_terms_nth:
  assumes "j < length ga"
  shows "update_memory_terms A g mem i ga ! j =
         ga ! j + (g - mem ! i) * A_entry A i j / real (shape0 A)"
proof -
  have "update_memory_terms A g mem i ga ! j =
        ga ! j + sum_list (map (\<lambda>k. if indices A ! k = j
                 then (g - mem ! i) * data A ! k / real (shape0 A) else 0) (row_range A i))"
    unfolding update_memory_terms_def Let_def using assms by (rule scatter_add_nth)
  then show ?thesis
    by (simp only: sum_list_scaled A_entry_def)
qed

lemma weighted_sum_update:
  assumes "i < n" "i < length mem"
  shows "sum_list (map (\<lambda>k. mem[i := g] ! k * (e k :: real)) [0..<n]) =
         sum_list (map (\<lambda>k. mem ! k * e k) [0..<n]) + (g - mem ! i) * e i"
proof -
  have eq: "\<And>k. mem[i := g] ! k * e k = mem ! k * e k + (if k = i then (g - mem ! i) * e i else 0)"
    using assms by (simp add: nth_list_update algebra_simps)
  have "sum_list (map (\<lambda>k. mem[i := g] ! k * e k) [0..<n]) =
        (\<Sum>k\<in>{0..<n}. mem ! k * e k + (if k = i then (g - mem ! i) * e i else 0))"
    by (simp add: sum_list_upt_sum eq)
  also have "\<dots> = (\<Sum>k\<in>{0..<n}. mem ! k * e k) + (\<Sum>k\<in>{0..<n}. if k = i then (g - mem ! i) * e i else 0)"
    by (rule sum.distrib)
  also have "(\<Sum>k\<in>{0..<n}. if k = i then (g - mem ! i) * e i else 0) = (g - mem ! i) * e i"
    using assms by simp
  finally show ?thesis by (simp add: sum_list_upt_sum)
qed

lemma sample_update_keeps_invariant:
  assumes ok: "tables_ok A mem ga" and i: "i < shape0 A"
  shows "tables_ok A (mem[i := g]) (update_memory_terms A g mem i ga)"
proof -
  from ok have lm: "length mem = shape0 A" and lg: "length ga = shape1 A"
    and inv: "average_invariant A mem ga" by (simp_all add: tables_ok_def)
  have "average_invariant A (mem[i := g]) (update_memory_terms A g mem i ga)"
    unfolding average_invariant_def
  proof (intro allI impI)
    fix j assume j: "j < shape1 A"
    have "update_memory_terms A g mem i ga ! j =
          ga ! j + (g - mem ! i) * A_entry A i j / real (shape0 A)"
      using j lg by (simp add: update_memory_terms_nth)
    also have "ga ! j = sum_list (map (\<lambda>k. mem ! k * A_entry A k j) [0..<shape0 A]) / real (shape0 A)"
      using inv j by (simp add: average_invariant_def)
    finally show "update_memory_terms A g mem i ga ! j =
       sum_list (map (\<lambda>k. mem[i := g] ! k * A_entry A k j) [0..<shape0 A]) / real (shape0 A)"
      using i lm by (simp add: weighted_sum_update add_divide_distrib)
  qed
  then show ?thesis using lm lg by (simp add: tables_ok_def update_memory_terms_length)
qed

lemma fst_fold_pair:
  "fst (fold (\<lambda>j (u, v). (F j u, G j v)) js (u, v)) = fold F js u"
  by (induction js arbitrary: u v) simp_all

lemma fst_update_memory_terms_clearing:
  "fst (update_memory_terms_clearing A g mem i (ga, ge)) = update_memory_terms A g mem i ga"
  unfolding update_memory_terms_clearing_def update_memory_terms_def Let_def
  by (rule fst_fold_pair)


lemma init_gradient_row_eq:
  "init_gradient_row f_prime A b n m (mem, ga) =
     (mem[m := f_prime 0 (b ! m)],
      fold (\<lambda>k ga. ga[indices A ! k := ga ! (indices A ! k) + f_prime 0 (b ! m) * data A ! k / real n])
        (row_range A m) ga)"
  by (simp add: init_gradient_row_def Let_def)

lemma init_gradient_row_nth:
  assumes "j < length ga"
  shows "snd (init_gradient_row f_prime A b n m (mem, ga)) ! j =
         ga ! j + f_prime 0 (b ! m) * A_entry A m j / real n"
proof -
  have "snd (init_gradient_row f_prime A b n m (mem, ga)) ! j =
        ga ! j + sum_list (map (\<lambda>k. if indices A ! k = j
                 then f_prime 0 (b ! m) * data A ! k / real n else 0) (row_range A m))"
    unfolding init_gradient_row_eq snd_conv using assms by (rule scatter_add_nth)
  then show ?thesis
    by (simp only: sum_list_scaled A_entry_def)
qed

lemma init_gradient_prefix:
  assumes "m \<le> length mem0"
  shows "case fold (init_gradient_row f_prime A b n) [0..<m] (mem0, replicate nf 0) of
           (mem, ga) \<Rightarrow>
             length mem = length mem0 \<and> length ga = nf \<and>
             (\<forall>j<nf. ga ! j = sum_list (map (\<lambda>i. mem ! i * A_entry A i j) [0..<m]) / real n)"
  using assms
proof (induction m)
  case 0
  then show ?case by simp
next
  case (Suc m)
  obtain mem ga where st: "fold (init_gradient_row f_prime A b n) [0..<m] (mem0, replicate nf 0) = (mem, ga)"
    by (cases "fold (init_gradient_row f_prime A b n) [0..<m] (mem0, replicate nf 0)")
  from Suc st have lm: "length mem = length mem0" and lg: "length ga = nf"
    and inv: "\<And>j. j < nf \<Longrightarrow> ga ! j = sum_list (map (\<lambda>i. mem ! i * A_entry A i j) [0..<m]) / real n"
    by simp_all
  let ?g = "f_prime 0 (b ! m)"
  obtain mem' ga' where st': "init_gradient_row f_prime A b n m (mem, ga) = (mem', ga')"
    by (cases "init_gradient_row f_prime A b n m (mem, ga)")
  have mem': "mem' = mem[m := ?g]"
    using st' by (simp add: init_gradient_row_eq)
  have lg': "length ga' = nf"
    using st' lg by (auto simp: init_gradient_row_eq scatter_add_length)
  have nth': "ga' ! j = sum_list (map (\<lambda>i. mem' ! i * A_entry A i j) [0..<Suc m]) / real n"
    if j: "j < nf" for j
  proof -
    have "ga' ! j = ga ! j + ?g * A_entry A m j / real n"
      using init_gradient_row_nth[of j ga f_prime A b n m mem] j lg st' by simp
    moreover have "sum_list (map (\<lambda>i. mem' ! i * A_entry A i j) [0..<m]) =
                   sum_list (map (\<lambda>i. mem ! i * A_entry A i j) [0..<m])"
      by (rule arg_cong[where f=sum_list], rule map_cong) (simp_all add: mem')
    moreover have "mem' ! m = ?g"
      using Suc.prems lm by (simp add: mem')
    ultimately show ?thesis
      using inv[OF j] by (simp add: add_divide_distrib)
  qed
  have "fold (init_gradient_row f_prime A b n) [0..<Suc m] (mem0, replicate nf 0) = (mem', ga')"
    by (simp add: st st')
  then show ?case
    using lm lg' nth' by (simp add: mem')
qed

lemma init_gradient_tables_ok:
  "case init_gradient f_prime A b (replicate (shape0 A) 0) (replicate (shape1 A) 0) (shape0 A) of
     (mem, ga) \<Rightarrow> tables_ok A mem ga"
  using init_gradient_prefix[where m="shape0 A" and ?mem0.0="replicate (shape0 A) 0"
      and f_prime=f_prime and A=A and b=b and n="shape0 A" and nf="shape1 A"]
  by (simp add: init_gradient_def tables_ok_def average_invariant_def split: prod.splits)

lemma saga_sample_tables:
  "memory_gradient (saga_sample f_prime g_prox A b alpha beta step_size i s) =
     (memory_gradient s)[i := f_prime (predict A (x_vec s) i) (b ! i)] \<and>
   gradient_average (saga_sample f_prime g_prox A b alpha beta step_size i s) =
     update_memory_terms A (f_prime (predict A (x_vec s) i) (b ! i)) (memory_gradient s) i
       (gradient_average s)"
  by (simp add: saga_sample_def Let_def)

lemma pssaga_sample_tables:
  "\<exists>g. memory_gradient (snd (pssaga_sample f_prime g_prox h_prox E A b alpha beta gamma step_size i (ge, s))) =
     (memory_gradient s)[i := g] \<and>
   gradient_average (snd (pssaga_sample f_prime g_prox h_prox E A b alpha beta gamma step_size i (ge, s))) =
     update_memory_terms A g (memory_gradient s) i (gradient_average s)"
  by (simp add: pssaga_sample_def Let_def split: prod.splits)
     (metis fst_update_memory_terms_clearing fst_conv)

text \<open>
  Claim C1. After \<open>init_gradient\<close> on the zero tables the driver allocates, and after every
  single-sample update of the SAGA kernel and of the PSSAGA kernel (for a sample index
  \<open>i < n_samples\<close>), the gradient average satisfies
  \<open>gradient_average[j] = (\<Sum>i. memory_gradient[i] * A[i, j]) / n_samples\<close> for every feature
  \<open>j\<close>, in exact arithmetic; the tables keep their sizes, so the statement applies again to
  the next sample.
\<close>

theorem gradient_average_invariant:
  "(case init_gradient f_prime A b (replicate (shape0 A) 0) (replicate (shape1 A) 0) (shape0 A) of
      (mem, ga) \<Rightarrow> tables_ok A mem ga) \<and>
   (tables_ok A (memory_gradient s) (gradient_average s) \<and> i < shape0 A \<longrightarrow>
      (let s' = saga_sample f_prime g_prox A b alpha beta step_size i s
       in tables_ok A (memory_gradient s') (gradient_average s'))) \<and>
   (tables_ok A (memory_gradient t) (gradient_average t) \<and> i < shape0 A \<longrightarrow>
      (let t' = snd (pssaga_sample f_prime g_prox2 h_prox E A b alpha beta gamma step_size i (ge, t))
       in tables_ok A (memory_gradient t') (gradient_average t')))"
proof (intro conjI impI)
  show "case init_gradient f_prime A b (replicate (shape0 A) 0) (replicate (shape1 A) 0) (shape0 A) of
      (mem, ga) \<Rightarrow> tables_ok A mem ga"
    by (rule init_gradient_tables_ok)
next
  assume "tables_ok A (memory_gradient s) (gradient_average s) \<and> i < shape0 A"
  then show "let s' = saga_sample f_prime g_prox A b alpha beta step_size i s
       in tables_ok A (memory_gradient s') (gradient_average s')"
    by (simp add: Let_def saga_sample_tables sample_update_keeps_invariant)
next
  assume a: "tables_ok A (memory_gradient t) (gradient_average t) \<and> i < shape0 A"
  obtain g where "memory_gradient (snd (pssaga_sample f_prime g_prox2 h_prox E A b alpha beta gamma step_size i (ge, t))) =
     (memory_gradient t)[i := g]"
    "gradient_average (snd (pssaga_sample f_prime g_prox2 h_prox E A b alpha beta gamma step_size i (ge, t))) =
     update_memory_terms A g (memory_gradient t) i (gradient_average t)"
    using pssaga_sample_tables by blast
  with a show "let t' = snd (pssaga_sample f_prime g_prox2 h_prox E A b alpha beta gamma step_size i (ge, t))
       in tables_ok A (memory_gradient t') (gradient_average t')"
    by (simp add: Let_def sample_update_keeps_invariant)
qed


lemma example_tables_ok: "tables_ok example_A [- 1, - 1] [- 3 / 2, - 1 / 2]"
  by (simp add: tables_ok_def average_invariant_def A_entry_def row_range_def example_A_def
        All_less_Suc numeral_2_eq_2 upt_rec)

theorem gradient_average_invariant_witness:
  "tables_ok example_A [- 1, - 1] [- 3 / 2, - 1 / 2] \<and> (1 :: nat) < shape0 example_A \<and>
   (case init_gradient deriv_squared example_A [1, 1] (replicate (shape0 example_A) 0)
           (replicate (shape1 example_A) 0) (shape0 example_A) of
      (mem, ga) \<Rightarrow> tables_ok example_A mem ga) \<and>
   (let s' = saga_sample deriv_squared saga_prox_default example_A [1, 1] 0 0 (1 / 2) 1
               \<lparr>x_vec = [0, 0], memory_gradient = [- 1, - 1], gradient_average = [- 3 / 2, - 1 / 2]\<rparr>
    in tables_ok example_A (memory_gradient s') (gradient_average s')) \<and>
   (let t' = snd (pssaga_sample deriv_squared pssaga_g_prox_default pssaga_h_prox_default
                    example_env example_A [1, 1] 0 0 0 (1 / 2) 1
                    ([0, 0], \<lparr>x_vec = [0, 0], memory_gradient = [- 1, - 1],
                              gradient_average = [- 3 / 2, - 1 / 2], y_vec = [0, 0], z_vec = [0, 0]\<rparr>))
    in tables_ok example_A (memory_gradient t') (gradient_average t'))"
proof -
  have i: "(1 :: nat) < shape0 example_A" by (simp add: example_A_def)
  show ?thesis
    using gradient_average_invariant[where A = example_A and f_prime = deriv_squared
        and b = "[1, 1]" and i = 1 and g_prox = saga_prox_default and alpha = 0 and beta = 0
        and step_size = "1 / 2"
        and s = "\<lparr>x_vec = [0, 0], memory_gradient = [- 1, - 1], gradient_average = [- 3 / 2, - 1 / 2]\<rparr>"
        and ?g_prox2.0 = pssaga_g_prox_default and h_prox = pssaga_h_prox_default
        and E = example_env and gamma = 0 and ge = "[0, 0]"
        and t = "\<lparr>x_vec = [0, 0], memory_gradient = [- 1, - 1],
                   gradient_average = [- 3 / 2, - 1 / 2], y_vec = [0, 0], z_vec = [0, 0]\<rparr>"]
      example_tables_ok i
    by simp
qed

section \<open>Errors raised during setup\<close>

lemma fold_preserves:
  assumes "\<And>x s. P s \<Longrightarrow> P (f x s)" and "P s"
  shows "P (fold f xs s)"
  using assms(2) by (induction xs arbitrary: s) (simp_all add: assms(1))

lemma fill_d_weights_error:
  assumes "fill_d_weights n_feat n_blocks RB dh = Inl e"
  shows "e = IndexError"
proof -
  let ?P = "\<lambda>acc :: error + real list. \<forall>e. acc = Inl e \<longrightarrow> e = IndexError"
  have "?P (fill_d_weights n_feat n_blocks RB dh)"
    unfolding fill_d_weights_def
    by (rule fold_preserves, rule fold_preserves) (auto split: sum.splits if_splits)
  with assms show ?thesis by simp
qed

lemma factory_sparse_PSSAGA_error:
  assumes "factory_sparse_PSSAGA h_blocks A = Inl e"
  shows "e \<noteq> ValueError []"
  using assms
  by (auto simp: factory_sparse_PSSAGA_def Let_def
        split: if_splits prod.splits sum.splits dest: fill_d_weights_error)

lemma iterate_epochs_error:
  "iterate_epochs epoch cert tol draws max_iter s \<noteq> Inl (ValueError [])"
  by (simp add: iterate_epochs_def split: nat.splits)

lemma saga_setup_guard:
  "length x0 = shape1 A \<Longrightarrow> shape0 A = length b \<Longrightarrow> step_size < 0 \<Longrightarrow>
   saga_setup f_prime A b x0 alpha beta g_prox step_size g_blocks = Inl (ValueError [])"
  by (simp add: saga_setup_def)

lemma saga_setup_no_guard:
  "0 \<le> step_size \<Longrightarrow>
   saga_setup f_prime A b x0 alpha beta g_prox step_size g_blocks \<noteq> Inl (ValueError [])"
  by (auto simp: saga_setup_def epoch_factory_sparse_SAGA_def Let_def
        split: py_arg.splits sum.splits prod.splits if_splits)

lemma pssaga_setup_guard:
  "g_prox \<noteq> PyOther \<Longrightarrow> h_prox \<noteq> PyOther \<Longrightarrow> shape0 A = length b \<Longrightarrow> step_size < 0 \<Longrightarrow>
   pssaga_setup f_prime A b x0 g_prox h_prox alpha beta gamma step_size h_blocks =
     Inl (ValueError [])"
  by (cases g_prox; cases h_prox) (simp_all add: pssaga_setup_def)

lemma pssaga_setup_no_guard:
  "0 \<le> step_size \<Longrightarrow>
   pssaga_setup f_prime A b x0 g_prox h_prox alpha beta gamma step_size h_blocks \<noteq>
     Inl (ValueError [])"
  by (cases g_prox; cases h_prox)
     (auto simp: pssaga_setup_def Let_def split: sum.splits prod.splits
        dest: factory_sparse_PSSAGA_error)

text \<open>
  Claim C5, as amended. A call with \<open>step_size < 0\<close> that passes the checks made before the
  guard (the two size assertions in fmin_SAGA; the proximal arguments and the size assertion
  in fmin_PSSAGA) raises the bare ValueError of the guard, and it does so in the setup, before
  the tables are built and before the kernel is called. A call with \<open>step_size \<ge> 0\<close>, zero
  included, never raises that error.
\<close>

theorem step_size_guard:
  "(length x0 = shape1 A \<and> shape0 A = length b \<and> step_size < 0 \<longrightarrow>
      fmin_SAGA f_prime A b x0 alpha beta g_prox step_size g_blocks max_iter tol draws =
        Inl (ValueError [])) \<and>
   (0 \<le> step_size \<longrightarrow>
      fmin_SAGA f_prime A b x0 alpha beta g_prox step_size g_blocks max_iter tol draws \<noteq>
        Inl (ValueError [])) \<and>
   (g_prox2 \<noteq> PyOther \<and> h_prox \<noteq> PyOther \<and> shape0 A = length b \<and> step_size < 0 \<longrightarrow>
      fmin_PSSAGA f_prime A b x0 g_prox2 h_prox alpha beta gamma step_size h_blocks max_iter tol
        draws = Inl (ValueError [])) \<and>
   (0 \<le> step_size \<longrightarrow>
      fmin_PSSAGA f_prime A b x0 g_prox2 h_prox alpha beta gamma step_size h_blocks max_iter tol
        draws \<noteq> Inl (ValueError []))"
proof (intro conjI impI)
  assume "length x0 = shape1 A \<and> shape0 A = length b \<and> step_size < 0"
  then show "fmin_SAGA f_prime A b x0 alpha beta g_prox step_size g_blocks max_iter tol draws =
        Inl (ValueError [])"
    by (simp add: fmin_SAGA_def saga_setup_guard)
next
  assume "0 \<le> step_size"
  then show "fmin_SAGA f_prime A b x0 alpha beta g_prox step_size g_blocks max_iter tol draws \<noteq>
        Inl (ValueError [])"
    using saga_setup_no_guard[of step_size f_prime A b x0 alpha beta g_prox g_blocks]
    by (auto simp: fmin_SAGA_def iterate_epochs_error split: sum.splits)
next
  assume "g_prox2 \<noteq> PyOther \<and> h_prox \<noteq> PyOther \<and> shape0 A = length b \<and> step_size < 0"
  then show "fmin_PSSAGA f_prime A b x0 g_prox2 h_prox alpha beta gamma step_size h_blocks
      max_iter tol draws = Inl (ValueError [])"
    by (simp add: fmin_PSSAGA_def pssaga_setup_guard)
next
  assume "0 \<le> step_size"
  then show "fmin_PSSAGA f_prime A b x0 g_prox2 h_prox alpha beta gamma step_size h_blocks
      max_iter tol draws \<noteq> Inl (ValueError [])"
    using pssaga_setup_no_guard[of step_size f_prime A b x0 g_prox2 h_prox alpha beta gamma h_blocks]
    by (auto simp: fmin_PSSAGA_def iterate_epochs_error split: sum.splits)
qed

theorem step_size_guard_witness:
  "fmin_SAGA deriv_squared unit_A [1] [0] 0 0 PyNone (- 1) None 1 (3 / 10) (\<lambda>it. [0]) =
     Inl (ValueError []) \<and>
   fmin_SAGA deriv_squared unit_A [1] [0] 0 0 PyNone 0 None 1 (3 / 10) (\<lambda>it. [0]) \<noteq>
     Inl (ValueError []) \<and>
   fmin_PSSAGA deriv_squared unit_A [1] [0] PyNone PyNone 0 0 0 (- 1) None 1 (3 / 10) (\<lambda>it. [0]) =
     Inl (ValueError []) \<and>
   fmin_PSSAGA deriv_squared unit_A [1] [0] PyNone PyNone 0 0 0 0 None 1 (3 / 10) (\<lambda>it. [0]) \<noteq>
     Inl (ValueError [])"
  using step_size_guard[where step_size = "- 1" and A = unit_A and b = "[1]" and ?x0.0 = "[0]"
      and f_prime = deriv_squared and alpha = 0 and beta = 0 and gamma = 0 and g_prox = PyNone
      and ?g_prox2.0 = PyNone and h_prox = PyNone and g_blocks = None and h_blocks = None
      and max_iter = 1 and tol = "3 / 10" and draws = "\<lambda>it. [0]"]
    step_size_guard[where step_size = 0 and A = unit_A and b = "[1]" and ?x0.0 = "[0]"
      and f_prime = deriv_squared and alpha = 0 and beta = 0 and gamma = 0 and g_prox = PyNone
      and ?g_prox2.0 = PyNone and h_prox = PyNone and g_blocks = None and h_blocks = None
      and max_iter = 1 and tol = "3 / 10" and draws = "\<lambda>it. [0]"]
  by (simp add: unit_shape)

theorem zero_step_size_accepted:
  "fmin_SAGA deriv_squared unit_A [1] [0] 0 0 PyNone 0 None 1 (3 / 10) (\<lambda>it. [0]) =
   Inr \<lparr>final = \<lparr>x_vec = [0], memory_gradient = [- 1], gradient_average = [- 1]\<rparr>,
        success = True, nit = 0, certificate = 0\<rparr>"
  by (rule run_saga_zero_step)

text \<open>
  Claim C6. fmin_SAGA asserts both sizes. In fmin_PSSAGA the assertion on the size of the
  coefficient vector is commented out: with one feature and a starting point of size two the
  call raises nothing and returns a result, where fmin_SAGA raises AssertionError.
\<close>

theorem pssaga_accepts_wrong_size:
  "shape1 unit_A = 1 \<and> length [0 :: real, 0] = 2 \<and>
   fmin_PSSAGA deriv_squared unit_A [1] [0, 0] PyNone PyNone 0 0 0 (1 / 2) None 1 (3 / 10)
     (\<lambda>it. [0]) =
   Inr \<lparr>final = \<lparr>x_vec = [1 / 2, 0], memory_gradient = [- (1 / 2)],
                 gradient_average = [- (1 / 2)], y_vec = [3 / 4, 0], z_vec = [3 / 4, 0]\<rparr>,
        success = True, nit = 0, certificate = 1 / 4\<rparr> \<and>
   fmin_SAGA deriv_squared unit_A [1] [0, 0] 0 0 PyNone (1 / 2) None 1 (3 / 10) (\<lambda>it. [0]) =
   Inl AssertionError"
proof (intro conjI)
  show "shape1 unit_A = 1" by (simp add: unit_shape)
  show "length [0 :: real, 0] = 2" by simp
qed (rule run_pssaga_long_x0 run_saga_long_x0)+

text \<open>
  Claim C4. The sequence fmin_SAGA hands to its kernel is the outcome of
  \<open>np.random.randint(low=0, high=n_samples, size=n_samples)\<close>, so it may repeat an index and
  miss another: with two samples the draw \<open>[0, 0]\<close> is possible, is no permutation, and the
  kernel runs on it.
\<close>

theorem saga_draw_is_not_a_permutation:
  "randint_outcome 2 [0, 0] \<and> \<not> permutation_outcome 2 [0, 0] \<and>
   fmin_SAGA deriv_squared eye2_A [1, 1] [0, 0] 0 0 PyNone (1 / 2) None 1 (3 / 10)
     (\<lambda>it. [0, 0]) =
   Inr \<lparr>final = \<lparr>x_vec = [3 / 8, 0], memory_gradient = [- (3 / 4), - 1],
                 gradient_average = [- (3 / 8), - (1 / 2)]\<rparr>,
        success = False, nit = 0, certificate = 5 / 16\<rparr>"
proof (intro conjI)
  show "randint_outcome 2 [0, 0]" by (simp add: randint_outcome_def)
  show "\<not> permutation_outcome 2 [0, 0]"
    by (simp add: permutation_outcome_def upt_rec del: mset_upt)
qed (rule run_saga_repeated_index)

lemma pssaga_blocks_default_supplied: "pssaga_blocks_default h_prox (Some hb) n = hb"
  by (cases h_prox) (simp_all add: pssaga_blocks_default_def)

text \<open>
  Claim C7, as amended. Without \<open>g_blocks\<close> fmin_SAGA uses the all-zero assignment, which puts
  every feature in the single block 0. Without \<open>h_blocks\<close> fmin_PSSAGA uses one block per
  feature when \<open>h_prox\<close> is omitted as well, and the all-zero assignment when an \<open>h_prox\<close> is
  given.
\<close>

theorem default_block_assignment:
  "saga_blocks_default None n = replicate n 0 \<and>
   pssaga_blocks_default PyNone None n = [0..<n] \<and>
   pssaga_blocks_default (PyCallable h) None n = replicate n 0 \<and>
   fmin_SAGA f_prime A b x0 alpha beta g_prox step_size None max_iter tol draws =
     fmin_SAGA f_prime A b x0 alpha beta g_prox step_size (Some (replicate (shape1 A) 0))
       max_iter tol draws \<and>
   fmin_PSSAGA f_prime A b x0 g_prox2 PyNone alpha beta gamma step_size None max_iter tol draws =
     fmin_PSSAGA f_prime A b x0 g_prox2 PyNone alpha beta gamma step_size
       (Some [0..<shape1 A]) max_iter tol draws \<and>
   fmin_PSSAGA f_prime A b x0 g_prox2 (PyCallable h) alpha beta gamma step_size None max_iter tol
       draws =
     fmin_PSSAGA f_prime A b x0 g_prox2 (PyCallable h) alpha beta gamma step_size
       (Some (replicate (shape1 A) 0)) max_iter tol draws"
proof -
  have s: "saga_blocks_default None n = replicate n 0" for n
    by (simp add: saga_blocks_default_def)
  have s': "saga_blocks_default (Some (replicate n 0)) n = replicate n 0" for n
    by (simp add: saga_blocks_default_def)
  have p: "pssaga_blocks_default PyNone None n = [0..<n]" for n
    by (simp add: pssaga_blocks_default_def)
  have q: "pssaga_blocks_default (PyCallable h) None n = replicate n 0" for n
    by (simp add: pssaga_blocks_default_def)
  have "saga_setup f_prime A b x0 alpha beta g_prox step_size None =
        saga_setup f_prime A b x0 alpha beta g_prox step_size (Some (replicate (shape1 A) 0))"
    by (simp only: saga_setup_def s s')
  moreover have "pssaga_setup f_prime A b x0 g_prox2 PyNone alpha beta gamma step_size None =
        pssaga_setup f_prime A b x0 g_prox2 PyNone alpha beta gamma step_size
          (Some [0..<shape1 A])"
    by (simp only: pssaga_setup_def p pssaga_blocks_default_supplied)
  moreover have "pssaga_setup f_prime A b x0 g_prox2 (PyCallable h) alpha beta gamma step_size None =
        pssaga_setup f_prime A b x0 g_prox2 (PyCallable h) alpha beta gamma step_size
          (Some (replicate (shape1 A) 0))"
    by (simp only: pssaga_setup_def q pssaga_blocks_default_supplied)
  ultimately show ?thesis
    by (simp only: fmin_SAGA_def fmin_PSSAGA_def s p q simp_thms)
qed

theorem default_blocks_share_a_block:
  "saga_blocks_default None 2 = [0, 0] \<and>
   pssaga_blocks_default (PyCallable prox_L1) None 2 = [0, 0]"
  by (simp add: saga_blocks_default_def pssaga_blocks_default_def numeral_2_eq_2)

text \<open>
  Claim C8, as amended. Omitting \<open>g_prox\<close> gives the same result as passing the identity, in
  both solvers and for every number of epochs; omitting \<open>h_prox\<close> gives the same result as
  passing the identity when \<open>h_blocks\<close> is supplied.
\<close>

theorem omitted_prox_is_identity:
  "fmin_SAGA f_prime A b x0 alpha beta PyNone step_size g_blocks max_iter tol draws =
     fmin_SAGA f_prime A b x0 alpha beta (PyCallable saga_prox_default) step_size g_blocks
       max_iter tol draws \<and>
   fmin_PSSAGA f_prime A b x0 PyNone h_prox alpha beta gamma step_size h_blocks max_iter tol draws =
     fmin_PSSAGA f_prime A b x0 (PyCallable pssaga_g_prox_default) h_prox alpha beta gamma
       step_size h_blocks max_iter tol draws \<and>
   fmin_PSSAGA f_prime A b x0 g_prox2 PyNone alpha beta gamma step_size (Some hb) max_iter tol
       draws =
     fmin_PSSAGA f_prime A b x0 g_prox2 (PyCallable pssaga_h_prox_default) alpha beta gamma
       step_size (Some hb) max_iter tol draws"
proof (intro conjI)
  show "fmin_SAGA f_prime A b x0 alpha beta PyNone step_size g_blocks max_iter tol draws =
     fmin_SAGA f_prime A b x0 alpha beta (PyCallable saga_prox_default) step_size g_blocks
       max_iter tol draws"
    by (simp add: fmin_SAGA_def saga_setup_def)
  show "fmin_PSSAGA f_prime A b x0 PyNone h_prox alpha beta gamma step_size h_blocks max_iter tol
       draws =
     fmin_PSSAGA f_prime A b x0 (PyCallable pssaga_g_prox_default) h_prox alpha beta gamma
       step_size h_blocks max_iter tol draws"
    by (simp add: fmin_PSSAGA_def pssaga_setup_def)
  have "pssaga_setup f_prime A b x0 g_prox2 PyNone alpha beta gamma step_size (Some hb) =
        pssaga_setup f_prime A b x0 g_prox2 (PyCallable pssaga_h_prox_default) alpha beta gamma
          step_size (Some hb)"
    by (cases g_prox2) (simp_all add: pssaga_setup_def pssaga_blocks_default_supplied)
  then show "fmin_PSSAGA f_prime A b x0 g_prox2 PyNone alpha beta gamma step_size (Some hb)
       max_iter tol draws =
     fmin_PSSAGA f_prime A b x0 g_prox2 (PyCallable pssaga_h_prox_default) alpha beta gamma
       step_size (Some hb) max_iter tol draws"
    by (simp only: fmin_PSSAGA_def)
qed

theorem omitted_h_prox_changes_blocks:
  "fmin_PSSAGA deriv_squared wide_A [1] [1, 0] PyNone PyNone 1 0 0 (1 / 2) None 1 (3 / 10)
     (\<lambda>it. [0]) =
   Inr \<lparr>final = \<lparr>x_vec = [1, 1 / 2], memory_gradient = [- (1 / 2)],
                 gradient_average = [0, - (1 / 2)], y_vec = [1, 1 / 2], z_vec = [1, 1 / 2]\<rparr>,
        success = True, nit = 0, certificate = 0\<rparr> \<and>
   fmin_PSSAGA deriv_squared wide_A [1] [1, 0] PyNone (PyCallable pssaga_h_prox_default) 1 0 0
     (1 / 2) None 1 (3 / 10) (\<lambda>it. [0]) =
   Inr \<lparr>final = \<lparr>x_vec = [1 / 2, 1 / 2], memory_gradient = [- (1 / 2)],
                 gradient_average = [0, - (1 / 2)], y_vec = [1 / 4, 1 / 2],
                 z_vec = [1 / 4, 1 / 2]\<rparr>,
        success = True, nit = 0, certificate = 1 / 4\<rparr>"
  by (intro conjI run_pssaga_none run_pssaga_identity)

section \<open>The warm-up call of fmin_SAGA\<close>

lemma saga_setup_state:
  assumes "saga_setup f_prime A b x0 alpha beta g_prox step_size g_blocks = Inr (p, s)"
  shows "s = saga_warm_up f_prime p A b alpha beta step_size
               \<lparr>x_vec = x0,
                memory_gradient = fst (init_gradient f_prime A b (replicate (shape0 A) 0)
                                    (replicate (shape1 A) 0) (shape0 A)),
                gradient_average = snd (init_gradient f_prime A b (replicate (shape0 A) 0)
                                    (replicate (shape1 A) 0) (shape0 A))\<rparr>"
  using assms
  by (auto simp: saga_setup_def Let_def split: if_splits sum.splits prod.splits py_arg.splits)

text \<open>
  Claim C10. The state with which fmin_SAGA enters its first iteration has the coefficient
  vector \<open>x0\<close> unchanged, while \<open>memory_gradient\<close> and \<open>gradient_average\<close> are the tables that
  one run of the kernel body on sample 0, started from \<open>x0\<close> and the freshly initialised
  tables, leaves: entry 0 of the memory holds the derivative at the prediction of row 0, and
  every entry \<open>j\<close> of the average has moved by \<open>(g - memory[0]) * A[0, j] / n_samples\<close>.
\<close>

theorem warm_up_frame:
  assumes "saga_setup f_prime A b x0 alpha beta g_prox step_size g_blocks = Inr (p, s)"
  shows "x_vec s = x0 \<and>
         (case init_gradient f_prime A b (replicate (shape0 A) 0) (replicate (shape1 A) 0)
                 (shape0 A) of
            (mem, ga) \<Rightarrow>
              let s1 = saga_sample f_prime p A b alpha beta step_size 0
                         \<lparr>x_vec = x0, memory_gradient = mem, gradient_average = ga\<rparr>;
                  g = f_prime (predict A x0 0) (b ! 0)
              in memory_gradient s = memory_gradient s1 \<and>
                 gradient_average s = gradient_average s1 \<and>
                 memory_gradient s = mem[0 := g] \<and>
                 length (gradient_average s) = length ga \<and>
                 (\<forall>j < shape1 A. gradient_average s ! j =
                    ga ! j + (g - mem ! 0) * A_entry A 0 j / real (shape0 A)))"
proof -
  obtain mem ga where ig: "init_gradient f_prime A b (replicate (shape0 A) 0)
      (replicate (shape1 A) 0) (shape0 A) = (mem, ga)"
    by (cases "init_gradient f_prime A b (replicate (shape0 A) 0) (replicate (shape1 A) 0)
      (shape0 A)")
  have ok: "tables_ok A mem ga"
    using init_gradient_tables_ok[where f_prime = f_prime and A = A and b = b] ig by simp
  then have lg: "length ga = shape1 A" by (simp add: tables_ok_def)
  have s: "s = saga_warm_up f_prime p A b alpha beta step_size
               \<lparr>x_vec = x0, memory_gradient = mem, gradient_average = ga\<rparr>"
    using saga_setup_state[OF assms] ig by simp
  let ?s1 = "saga_sample f_prime p A b alpha beta step_size 0
               \<lparr>x_vec = x0, memory_gradient = mem, gradient_average = ga\<rparr>"
  let ?g = "f_prime (predict A x0 0) (b ! 0)"
  have x: "x_vec s = x0" and m: "memory_gradient s = memory_gradient ?s1"
    and a: "gradient_average s = gradient_average ?s1"
    by (simp_all add: s saga_warm_up_def saga_epoch_def Let_def)
  have m': "memory_gradient ?s1 = mem[0 := ?g]"
    and a': "gradient_average ?s1 = update_memory_terms A ?g mem 0 ga"
    using saga_sample_tables[of f_prime p A b alpha beta step_size 0
        "\<lparr>x_vec = x0, memory_gradient = mem, gradient_average = ga\<rparr>"]
    by simp_all
  have "\<forall>j < shape1 A. gradient_average s ! j =
          ga ! j + (?g - mem ! 0) * A_entry A 0 j / real (shape0 A)"
    using lg by (simp add: a a' update_memory_terms_nth)
  moreover have "length (gradient_average s) = length ga"
    by (simp add: a a' update_memory_terms_length)
  ultimately show ?thesis
    using x m a m' by (simp add: ig Let_def)
qed

theorem warm_up_frame_witness:
  "saga_setup deriv_squared unit_A [1] [0] 0 0 PyNone (1 / 2) None =
     Inr (saga_prox_default, \<lparr>x_vec = [0], memory_gradient = [- 1], gradient_average = [- 1]\<rparr>) \<and>
   x_vec \<lparr>x_vec = [0], memory_gradient = [- 1], gradient_average = [- 1]\<rparr> = [0 :: real]"
proof -
  have h: "saga_setup deriv_squared unit_A [1] [0] 0 0 PyNone (1 / 2) None =
     Inr (saga_prox_default, \<lparr>x_vec = [0], memory_gradient = [- 1], gradient_average = [- 1]\<rparr>)"
    by (rule unit_saga_setup) simp
  show ?thesis
    using warm_up_frame[OF h] h by simp
qed

section \<open>The epoch loop\<close>

lemma loop_post_stop:
  "it \<le> bound \<Longrightarrow>
   loop_post E C tol draws it bound s0
     \<lparr>final = after_epochs E draws (Suc it) s0, success = True, nit = it,
      certificate = C (after_epochs E draws (Suc it) s0)\<rparr> =
   (C (after_epochs E draws (Suc it) s0) < tol)"
  by (simp add: loop_post_def)

lemma loop_post_last:
  "loop_post E C tol draws it it s0
     \<lparr>final = after_epochs E draws (Suc it) s0,
      success = (C (after_epochs E draws (Suc it) s0) < tol), nit = it,
      certificate = C (after_epochs E draws (Suc it) s0)\<rparr>"
  by (simp add: loop_post_def)

lemma loop_postD:
  assumes "loop_post E C tol draws it bound s0 r"
  shows "final r = after_epochs E draws (Suc (nit r)) s0"
    and "certificate r = C (final r)"
    and "success r = (C (final r) < tol)"
    and "it \<le> nit r" and "nit r \<le> bound"
    and "\<forall>m. it \<le> m \<and> m < nit r \<longrightarrow> \<not> C (after_epochs E draws (Suc m) s0) < tol"
    and "\<not> success r \<longrightarrow> nit r = bound"
proof -
  note c = assms[unfolded loop_post_def]
  note c2 = c[THEN conjunct2]
  note c3 = c2[THEN conjunct2]
  note c4 = c3[THEN conjunct2]
  note c5 = c4[THEN conjunct2]
  note c6 = c5[THEN conjunct2]
  show "final r = after_epochs E draws (Suc (nit r)) s0" by (rule c[THEN conjunct1])
  show "certificate r = C (final r)" by (rule c2[THEN conjunct1])
  show "success r = (C (final r) < tol)" by (rule c3[THEN conjunct1])
  show "it \<le> nit r" by (rule c4[THEN conjunct1])
  show "nit r \<le> bound" by (rule c5[THEN conjunct1])
  show "\<forall>m. it \<le> m \<and> m < nit r \<longrightarrow> \<not> C (after_epochs E draws (Suc m) s0) < tol"
    by (rule c6[THEN conjunct1])
  show "\<not> success r \<longrightarrow> nit r = bound" by (rule c6[THEN conjunct2])
qed

lemma loop_postI:
  assumes "final r = after_epochs E draws (Suc (nit r)) s0"
    and "certificate r = C (final r)"
    and "success r = (C (final r) < tol)"
    and "it \<le> nit r" and "nit r \<le> bound"
    and "\<forall>m. it \<le> m \<and> m < nit r \<longrightarrow> \<not> C (after_epochs E draws (Suc m) s0) < tol"
    and "\<not> success r \<longrightarrow> nit r = bound"
  shows "loop_post E C tol draws it bound s0 r"
  unfolding loop_post_def using assms by (intro conjI)

lemma loop_post_step:
  assumes "loop_post E C tol draws (Suc it) bound s0 r"
    and "\<not> C (after_epochs E draws (Suc it) s0) < tol"
  shows "loop_post E C tol draws it bound s0 r"
proof -
  note d = loop_postD[OF assms(1)]
  have all: "\<forall>m. it \<le> m \<and> m < nit r \<longrightarrow> \<not> C (after_epochs E draws (Suc m) s0) < tol"
  proof (intro allI impI)
    fix m assume m: "it \<le> m \<and> m < nit r"
    show "\<not> C (after_epochs E draws (Suc m) s0) < tol"
    proof (cases "m = it")
      case True
      with assms(2) show ?thesis by blast
    next
      case False
      with m have "Suc it \<le> m \<and> m < nit r" by linarith
      with d(6) show ?thesis by blast
    qed
  qed
  from d(4) have lo: "it \<le> nit r" by linarith
  show ?thesis
    by (rule loop_postI[OF d(1) d(2) d(3) lo d(5) all d(7)])
qed

lemma run_epochs_sound:
  "loop_post E C tol draws it (it + k) s0
     (run_epochs E C tol draws it k (after_epochs E draws it s0))"
proof (induction k arbitrary: it)
  case 0
  show ?case using loop_post_last[of E C tol draws it s0] by (simp add: Let_def)
next
  case (Suc k)
  show ?case
  proof (cases "C (after_epochs E draws (Suc it) s0) < tol")
    case True
    then show ?thesis
      using loop_post_stop[of it "it + Suc k" E C tol draws s0] by (simp add: Let_def)
  next
    case False
    have "loop_post E C tol draws (Suc it) (Suc it + k) s0
            (run_epochs E C tol draws (Suc it) k (after_epochs E draws (Suc it) s0))"
      by (rule Suc.IH)
    then have "loop_post E C tol draws it (it + Suc k) s0
            (run_epochs E C tol draws (Suc it) k (after_epochs E draws (Suc it) s0))"
      using False by (simp add: loop_post_step)
    with False show ?thesis by (simp add: Let_def)
  qed
qed


lemma iterate_epochs_sound:
  assumes "iterate_epochs E C tol draws max_iter s = Inr r"
  shows "nit r < max_iter"
    and "final r = after_epochs E draws (Suc (nit r)) s"
    and "certificate r = C (final r)"
    and "success r = (certificate r < tol)"
    and "success r = (\<exists>m < max_iter. C (after_epochs E draws (Suc m) s) < tol)"
    and "\<not> success r \<longrightarrow> Suc (nit r) = max_iter"
    and "\<forall>m < nit r. \<not> C (after_epochs E draws (Suc m) s) < tol"
proof -
  from assms obtain k where k: "max_iter = Suc k"
    and r: "run_epochs E C tol draws 0 k s = r"
    by (cases max_iter) (simp_all add: iterate_epochs_def)
  have "loop_post E C tol draws 0 (0 + k) s (run_epochs E C tol draws 0 k (after_epochs E draws 0 s))"
    by (rule run_epochs_sound)
  then have post: "loop_post E C tol draws 0 k s r"
    using r by simp
  note d = loop_postD[OF post]
  show n: "nit r < max_iter" using d(5) k by linarith
  show "final r = after_epochs E draws (Suc (nit r)) s" by (rule d(1))
  show "certificate r = C (final r)" by (rule d(2))
  show "success r = (certificate r < tol)" using d(2) d(3) by (simp only: simp_thms)
  show "\<not> success r \<longrightarrow> Suc (nit r) = max_iter" using d(7) k by blast
  show "\<forall>m < nit r. \<not> C (after_epochs E draws (Suc m) s) < tol" using d(6) by blast
  show "success r = (\<exists>m < max_iter. C (after_epochs E draws (Suc m) s) < tol)"
  proof
    assume "success r"
    with d(3) d(1) have "C (after_epochs E draws (Suc (nit r)) s) < tol"
      by (simp only: simp_thms)
    with n show "\<exists>m < max_iter. C (after_epochs E draws (Suc m) s) < tol" by blast
  next
    assume "\<exists>m < max_iter. C (after_epochs E draws (Suc m) s) < tol"
    then obtain m where m: "m < max_iter" "C (after_epochs E draws (Suc m) s) < tol" by blast
    show "success r"
    proof (rule ccontr)
      assume ns: "\<not> success r"
      with d(7) have nk: "nit r = k" by blast
      from ns d(3) d(1) have last: "\<not> C (after_epochs E draws (Suc (nit r)) s) < tol"
        by (simp only: simp_thms)
      from m(1) k nk have "m < nit r \<or> m = nit r" by linarith
      then show False
      proof
        assume "m < nit r"
        with d(6) m(2) show False by blast
      next
        assume "m = nit r"
        with last m(2) show False by blast
      qed
    qed
  qed
qed

lemma run_epochs_cong:
  assumes "\<And>it. E (d it) = E' (d' it)"
  shows "run_epochs E C tol d it k s = run_epochs E' C tol d' it k s"
  by (induction k arbitrary: it s) (simp_all add: assms Let_def)

lemma fmin_SAGA_single_job:
  "fmin_SAGA_n_jobs joined f_prime A b x0 alpha beta g_prox step_size g_blocks 1 max_iter tol
     draws =
   fmin_SAGA f_prime A b x0 alpha beta g_prox step_size g_blocks max_iter tol
     (\<lambda>it. draws it 0)"
proof -
  have one: "map (draws it) [0..<1] = [draws it 0]" for it
    by simp
  have r: "run_epochs (saga_dispatch joined f_prime p A b alpha beta step_size) C tol
          (\<lambda>it. map (draws it) [0..<1]) 0 k s =
        run_epochs (saga_epoch f_prime p A b alpha beta step_size) C tol
          (\<lambda>it. draws it 0) 0 k s" for p C s k
    by (rule run_epochs_cong) (simp add: saga_dispatch_def fun_eq_iff)
  have i: "iterate_epochs (saga_dispatch joined f_prime p A b alpha beta step_size) C tol
          (\<lambda>it. map (draws it) [0..<1]) max_iter s =
        iterate_epochs (saga_epoch f_prime p A b alpha beta step_size) C tol
          (\<lambda>it. draws it 0) max_iter s" for p C s
    unfolding iterate_epochs_def by (cases max_iter) (simp_all only: nat.case r)
  show ?thesis
    unfolding fmin_SAGA_n_jobs_def fmin_SAGA_def i ..
qed

section \<open>The certificate and termination\<close>

lemma unit_saga_second_epoch:
  "saga_epoch deriv_squared saga_prox_default unit_A [1] 0 0 (1 / 2) [0]
     \<lparr>x_vec = [1 / 2], memory_gradient = [- 1], gradient_average = [- 1]\<rparr> =
   \<lparr>x_vec = [3 / 4], memory_gradient = [- (1 / 2)], gradient_average = [- (1 / 2)]\<rparr>"
  by code_simp

lemma run_saga_two_epochs:
  "fmin_SAGA deriv_squared unit_A [1] [0] 0 0 PyNone (1 / 2) None 2 (3 / 10) (\<lambda>it. [0]) =
   Inr \<lparr>final = \<lparr>x_vec = [3 / 4], memory_gradient = [- (1 / 2)], gradient_average = [- (1 / 2)]\<rparr>,
        success = True, nit = 1, certificate = 1 / 4\<rparr>"
  by (simp add: fmin_SAGA_def unit_saga_setup iterate_epochs_def numeral_2_eq_2 unit_saga_epoch
        unit_saga_second_epoch certificate_defs unit_shape sqrt_quarter sqrt_16th Let_def)

text \<open>
  Claim C3, as amended. For \<open>max_iter \<ge> 1\<close> and every \<open>n_jobs\<close>, the certificate the run
  returns is \<open>|x - z|\<close> at the state it returns, which is the state the shared arrays hold
  after the kernels of the last iteration have all finished. In fmin_SAGA, \<open>z\<close> is the
  proximal step from \<open>x - step_size * (gradient_average + alpha * x)\<close>, where
  \<open>gradient_average\<close> is the running average of the memorised per-sample gradients kept by the
  kernel; in fmin_PSSAGA, \<open>z\<close> is the auxiliary vector the kernel leaves. The run stops after
  the first iteration whose certificate is below \<open>tol\<close>: no earlier iteration had a
  certificate below \<open>tol\<close>, the run returns \<open>success = True\<close> exactly when the certificate is
  below \<open>tol\<close> after one of the first \<open>max_iter\<close> iterations, and otherwise it returns
  \<open>success = False\<close> after \<open>max_iter\<close> iterations.
\<close>

theorem certificate_and_termination:
  "(fmin_SAGA_n_jobs joined f_prime A b x0 alpha beta g_prox step_size g_blocks n_jobs max_iter
      tol draws = Inr r \<longrightarrow>
      (\<exists>p s. saga_setup f_prime A b x0 alpha beta g_prox step_size g_blocks = Inr (p, s) \<and>
         nit r < max_iter \<and>
         final r = after_epochs (saga_dispatch joined f_prime p A b alpha beta step_size)
                     (\<lambda>it. map (draws it) [0..<n_jobs]) (Suc (nit r)) s \<and>
         certificate r =
           linalg_norm (vsub (x_vec (final r))
             (p (beta * step_size)
                (vsub (x_vec (final r))
                   (smul step_size (vadd (gradient_average (final r))
                                         (smul alpha (x_vec (final r))))))
                0 (shape1 A))) \<and>
         success r = (certificate r < tol) \<and>
         (\<forall>m < nit r. \<not> saga_certificate p A alpha beta step_size
              (after_epochs (saga_dispatch joined f_prime p A b alpha beta step_size)
                 (\<lambda>it. map (draws it) [0..<n_jobs]) (Suc m) s) < tol) \<and>
         success r =
           (\<exists>m < max_iter. saga_certificate p A alpha beta step_size
              (after_epochs (saga_dispatch joined f_prime p A b alpha beta step_size)
                 (\<lambda>it. map (draws it) [0..<n_jobs]) (Suc m) s) < tol) \<and>
         (\<not> success r \<longrightarrow> Suc (nit r) = max_iter))) \<and>
   (fmin_PSSAGA f_prime A b x0 g_prox2 h_prox alpha beta gamma step_size h_blocks max_iter tol
      perms = Inr t \<longrightarrow>
      (\<exists>p q E s. pssaga_setup f_prime A b x0 g_prox2 h_prox alpha beta gamma step_size h_blocks =
                    Inr ((p, q, E), s) \<and>
         nit t < max_iter \<and>
         final t = after_epochs (pssaga_epoch f_prime p q E A b alpha beta gamma step_size) perms
                     (Suc (nit t)) s \<and>
         certificate t = linalg_norm (vsub (x_vec (final t)) (z_vec (final t))) \<and>
         success t = (certificate t < tol) \<and>
         (\<forall>m < nit t. \<not> pssaga_certificate
              (after_epochs (pssaga_epoch f_prime p q E A b alpha beta gamma step_size) perms
                 (Suc m) s) < tol) \<and>
         success t =
           (\<exists>m < max_iter. pssaga_certificate
              (after_epochs (pssaga_epoch f_prime p q E A b alpha beta gamma step_size) perms
                 (Suc m) s) < tol) \<and>
         (\<not> success t \<longrightarrow> Suc (nit t) = max_iter)))"
proof (intro conjI impI)
  assume run: "fmin_SAGA_n_jobs joined f_prime A b x0 alpha beta g_prox step_size g_blocks n_jobs
      max_iter tol draws = Inr r"
  then obtain p s where
    stp: "saga_setup f_prime A b x0 alpha beta g_prox step_size g_blocks = Inr (p, s)"
    and it: "iterate_epochs (saga_dispatch joined f_prime p A b alpha beta step_size)
               (saga_certificate p A alpha beta step_size) tol
               (\<lambda>it. map (draws it) [0..<n_jobs]) max_iter s = Inr r"
    by (cases "saga_setup f_prime A b x0 alpha beta g_prox step_size g_blocks")
       (auto simp: fmin_SAGA_n_jobs_def)
  note d = iterate_epochs_sound[OF it]
  have c: "certificate r =
           linalg_norm (vsub (x_vec (final r))
             (p (beta * step_size)
                (vsub (x_vec (final r))
                   (smul step_size (vadd (gradient_average (final r))
                                         (smul alpha (x_vec (final r))))))
                0 (shape1 A)))"
    using d(3) by (simp add: saga_certificate_def Let_def)
  show "\<exists>p s. saga_setup f_prime A b x0 alpha beta g_prox step_size g_blocks = Inr (p, s) \<and>
         nit r < max_iter \<and>
         final r = after_epochs (saga_dispatch joined f_prime p A b alpha beta step_size)
                     (\<lambda>it. map (draws it) [0..<n_jobs]) (Suc (nit r)) s \<and>
         certificate r =
           linalg_norm (vsub (x_vec (final r))
             (p (beta * step_size)
                (vsub (x_vec (final r))
                   (smul step_size (vadd (gradient_average (final r))
                                         (smul alpha (x_vec (final r))))))
                0 (shape1 A))) \<and>
         success r = (certificate r < tol) \<and>
         (\<forall>m < nit r. \<not> saga_certificate p A alpha beta step_size
              (after_epochs (saga_dispatch joined f_prime p A b alpha beta step_size)
                 (\<lambda>it. map (draws it) [0..<n_jobs]) (Suc m) s) < tol) \<and>
         success r =
           (\<exists>m < max_iter. saga_certificate p A alpha beta step_size
              (after_epochs (saga_dispatch joined f_prime p A b alpha beta step_size)
                 (\<lambda>it. map (draws it) [0..<n_jobs]) (Suc m) s) < tol) \<and>
         (\<not> success r \<longrightarrow> Suc (nit r) = max_iter)"
    by (rule exI[of _ p], rule exI[of _ s]) (intro conjI stp d(1) d(2) c d(4) d(7) d(5) d(6))
next
  assume run: "fmin_PSSAGA f_prime A b x0 g_prox2 h_prox alpha beta gamma step_size h_blocks
      max_iter tol perms = Inr t"
  then obtain p q E s where
    stp: "pssaga_setup f_prime A b x0 g_prox2 h_prox alpha beta gamma step_size h_blocks =
              Inr ((p, q, E), s)"
    and it: "iterate_epochs (pssaga_epoch f_prime p q E A b alpha beta gamma step_size)
               pssaga_certificate tol perms max_iter s = Inr t"
    by (cases "pssaga_setup f_prime A b x0 g_prox2 h_prox alpha beta gamma step_size h_blocks")
       (auto simp: fmin_PSSAGA_def)
  note d = iterate_epochs_sound[OF it]
  have c: "certificate t = linalg_norm (vsub (x_vec (final t)) (z_vec (final t)))"
    using d(3) by (simp add: pssaga_certificate_def)
  show "\<exists>p q E s. pssaga_setup f_prime A b x0 g_prox2 h_prox alpha beta gamma step_size h_blocks =
                    Inr ((p, q, E), s) \<and>
         nit t < max_iter \<and>
         final t = after_epochs (pssaga_epoch f_prime p q E A b alpha beta gamma step_size) perms
                     (Suc (nit t)) s \<and>
         certificate t = linalg_norm (vsub (x_vec (final t)) (z_vec (final t))) \<and>
         success t = (certificate t < tol) \<and>
         (\<forall>m < nit t. \<not> pssaga_certificate
              (after_epochs (pssaga_epoch f_prime p q E A b alpha beta gamma step_size) perms
                 (Suc m) s) < tol) \<and>
         success t =
           (\<exists>m < max_iter. pssaga_certificate
              (after_epochs (pssaga_epoch f_prime p q E A b alpha beta gamma step_size) perms
                 (Suc m) s) < tol) \<and>
         (\<not> success t \<longrightarrow> Suc (nit t) = max_iter)"
    by (rule exI[of _ p], rule exI[of _ q], rule exI[of _ E], rule exI[of _ s])
       (intro conjI stp d(1) d(2) c d(4) d(7) d(5) d(6))
qed


theorem certificate_and_termination_witness:
  "fmin_SAGA_n_jobs (\<lambda>perms s. s) deriv_squared unit_A [1] [0] 0 0 PyNone (1 / 2) None 1 2
     (3 / 10) (\<lambda>it j. [0]) =
     Inr \<lparr>final = \<lparr>x_vec = [3 / 4], memory_gradient = [- (1 / 2)],
                   gradient_average = [- (1 / 2)]\<rparr>,
          success = True, nit = 1, certificate = 1 / 4\<rparr> \<and>
   fmin_PSSAGA deriv_squared unit_A [1] [0, 0] PyNone PyNone 0 0 0 (1 / 2) None 1 (3 / 10)
     (\<lambda>it. [0]) =
     Inr \<lparr>final = \<lparr>x_vec = [1 / 2, 0], memory_gradient = [- (1 / 2)],
                   gradient_average = [- (1 / 2)], y_vec = [3 / 4, 0], z_vec = [3 / 4, 0]\<rparr>,
          success = True, nit = 0, certificate = 1 / 4\<rparr> \<and>
   (\<exists>p s. saga_setup deriv_squared unit_A [1] [0] 0 0 PyNone (1 / 2) None = Inr (p, s) \<and>
      \<not> saga_certificate p unit_A 0 0 (1 / 2)
          (after_epochs (saga_dispatch (\<lambda>perms s. s) deriv_squared p unit_A [1] 0 0 (1 / 2))
             (\<lambda>it. map (\<lambda>j. [0]) [0..<1]) (Suc 0) s) < 3 / 10) \<and>
   (\<exists>p q E s. pssaga_setup deriv_squared unit_A [1] [0, 0] PyNone PyNone 0 0 0 (1 / 2) None =
        Inr ((p, q, E), s) \<and>
      \<lparr>x_vec = [1 / 2, 0], memory_gradient = [- (1 / 2)], gradient_average = [- (1 / 2)],
       y_vec = [3 / 4, 0], z_vec = [3 / 4, 0]\<rparr> =
        after_epochs (pssaga_epoch deriv_squared p q E unit_A [1] 0 0 0 (1 / 2)) (\<lambda>it. [0])
          (Suc 0) s)"
proof -
  let ?R = "\<lparr>final = \<lparr>x_vec = [3 / 4], memory_gradient = [- (1 / 2)],
                   gradient_average = [- (1 / 2)]\<rparr>,
          success = True, nit = 1, certificate = 1 / 4 :: real\<rparr>"
  have h1: "fmin_SAGA_n_jobs (\<lambda>perms s. s) deriv_squared unit_A [1] [0] 0 0 PyNone (1 / 2) None
      1 2 (3 / 10) (\<lambda>it j. [0]) = Inr ?R"
    by (simp only: fmin_SAGA_single_job run_saga_two_epochs)
  note w = certificate_and_termination[where joined = "\<lambda>perms s. s"
      and f_prime = deriv_squared and A = unit_A
      and b = "[1]" and alpha = 0 and beta = 0 and gamma = 0 and step_size = "1 / 2"
      and n_jobs = 1 and max_iter = 2 and tol = "3 / 10" and draws = "\<lambda>it j. [0]"
      and ?x0.0 = "[0]" and g_prox = PyNone and g_blocks = None
      and r = ?R, THEN conjunct1, rule_format, OF h1]
  then obtain p s where
    stp: "saga_setup deriv_squared unit_A [1] [0] 0 0 PyNone (1 / 2) None = Inr (p, s)"
    and earlier: "\<forall>m < nit ?R. \<not> saga_certificate p unit_A 0 0 (1 / 2)
          (after_epochs (saga_dispatch (\<lambda>perms s. s) deriv_squared p unit_A [1] 0 0 (1 / 2))
             (\<lambda>it. map (\<lambda>j. [0]) [0..<1]) (Suc m) s) < 3 / 10"
    by blast
  have "(0 :: nat) < nit ?R" by simp
  with earlier have first: "\<not> saga_certificate p unit_A 0 0 (1 / 2)
          (after_epochs (saga_dispatch (\<lambda>perms s. s) deriv_squared p unit_A [1] 0 0 (1 / 2))
             (\<lambda>it. map (\<lambda>j. [0]) [0..<1]) (Suc 0) s) < 3 / 10"
    by blast
  note v = certificate_and_termination[where f_prime = deriv_squared and A = unit_A
      and b = "[1]" and alpha = 0 and beta = 0 and gamma = 0 and step_size = "1 / 2"
      and max_iter = 1 and tol = "3 / 10" and perms = "\<lambda>it. [0]"
      and ?x0.0 = "[0, 0]" and ?g_prox2.0 = PyNone and h_prox = PyNone and h_blocks = None
      and t = "\<lparr>final = \<lparr>x_vec = [1 / 2, 0], memory_gradient = [- (1 / 2)],
                   gradient_average = [- (1 / 2)], y_vec = [3 / 4, 0], z_vec = [3 / 4, 0]\<rparr>,
          success = True, nit = 0, certificate = 1 / 4\<rparr>", THEN conjunct2,
      rule_format, OF run_pssaga_long_x0]
  have second: "\<exists>p q E s. pssaga_setup deriv_squared unit_A [1] [0, 0] PyNone PyNone 0 0 0 (1 / 2)
        None = Inr ((p, q, E), s) \<and>
      \<lparr>x_vec = [1 / 2, 0], memory_gradient = [- (1 / 2)], gradient_average = [- (1 / 2)],
       y_vec = [3 / 4, 0], z_vec = [3 / 4, 0]\<rparr> =
        after_epochs (pssaga_epoch deriv_squared p q E unit_A [1] 0 0 0 (1 / 2)) (\<lambda>it. [0])
          (Suc 0) s"
    using v by (simp only: optimize_result.simps) blast
  from stp first have "\<exists>p s. saga_setup deriv_squared unit_A [1] [0] 0 0 PyNone (1 / 2) None =
        Inr (p, s) \<and>
      \<not> saga_certificate p unit_A 0 0 (1 / 2)
          (after_epochs (saga_dispatch (\<lambda>perms s. s) deriv_squared p unit_A [1] 0 0 (1 / 2))
             (\<lambda>it. map (\<lambda>j. [0]) [0..<1]) (Suc 0) s) < 3 / 10"
    by blast
  with h1 run_pssaga_long_x0 second show ?thesis by (intro conjI)
qed

theorem certificate_is_not_exact:
  "fmin_SAGA_n_jobs (\<lambda>perms s. s) deriv_squared unit_A [1] [0] 0 0 PyNone (1 / 2) None 1 1
     (3 / 10) (\<lambda>it j. [0]) =
     Inr \<lparr>final = \<lparr>x_vec = [1 / 2], memory_gradient = [- 1], gradient_average = [- 1]\<rparr>,
          success = False, nit = 0, certificate = 1 / 2\<rparr> \<and>
   spec_certificate saga_prox_default deriv_squared unit_A [1] 0 0 (1 / 2) [1 / 2] = 1 / 4"
proof (intro conjI)
  show "fmin_SAGA_n_jobs (\<lambda>perms s. s) deriv_squared unit_A [1] [0] 0 0 PyNone (1 / 2) None 1 1
     (3 / 10) (\<lambda>it j. [0]) =
     Inr \<lparr>final = \<lparr>x_vec = [1 / 2], memory_gradient = [- 1], gradient_average = [- 1]\<rparr>,
          success = False, nit = 0, certificate = 1 / 2\<rparr>"
    by (simp only: fmin_SAGA_single_job run_saga_half_step)
qed (rule spec_certificate_half_step)

section \<open>One sample of the SAGA kernel in closed form\<close>















section \<open>The block-support index\<close>

lemma first_occurrences_snoc:
  "first_occurrences (bs @ [b]) =
     (if b \<in> set bs then first_occurrences bs else first_occurrences bs @ [b])"
  by (simp add: first_occurrences_def)

lemma set_first_occurrences: "set (first_occurrences bs) = set bs"
  by (simp add: first_occurrences_def)

lemma distinct_first_occurrences: "distinct (first_occurrences bs)"
  by (simp add: first_occurrences_def)

lemma fold_note_block: "fold note_block bs [] = first_occurrences bs"
proof (induction bs rule: rev_induct)
  case Nil
  show ?case by (simp add: first_occurrences_def)
next
  case (snoc b bs)
  then show ?case
    by (simp add: first_occurrences_snoc note_block_def set_first_occurrences)
qed

lemma length_note_block: "length (note_block b acc) \<le> Suc (length acc)"
  by (simp add: note_block_def)

lemma row_stateD:
  assumes "row_state pre acc n_blocks (BSi, seen, c)"
  shows "c = length pre + length acc" and "take c BSi = pre @ acc"
    and "length seen = n_blocks"
    and "\<forall>b < n_blocks. seen ! b = (if b \<in> set acc then 1 else 0)"
proof -
  note r = assms[unfolded row_state_def prod.case]
  show "c = length pre + length acc" by (rule r[THEN conjunct1])
  show "take c BSi = pre @ acc" by (rule r[THEN conjunct2, THEN conjunct1])
  show "length seen = n_blocks" by (rule r[THEN conjunct2, THEN conjunct2, THEN conjunct1])
  show "\<forall>b < n_blocks. seen ! b = (if b \<in> set acc then 1 else 0)"
    by (rule r[THEN conjunct2, THEN conjunct2, THEN conjunct2])
qed

lemma row_stateI:
  assumes "c = length pre + length acc" and "take c BSi = pre @ acc"
    and "length seen = n_blocks"
    and "\<forall>b < n_blocks. seen ! b = (if b \<in> set acc then 1 else 0)"
  shows "row_state pre acc n_blocks (BSi, seen, c)"
  unfolding row_state_def prod.case using assms by (intro conjI)

lemma support_visit_step:
  assumes st: "row_state pre acc n_blocks (BSi, seen, c)"
    and blk: "g_blocks ! (A_indices ! j) < n_blocks"
    and room: "c < length BSi"
  shows "\<exists>BSi' seen' c'.
           support_visit A_indices g_blocks j (BSi, seen, c) = (BSi', seen', c') \<and>
           row_state pre (note_block (g_blocks ! (A_indices ! j)) acc) n_blocks (BSi', seen', c') \<and>
           length BSi' = length BSi \<and> c' \<le> Suc c"
proof -
  let ?g = "g_blocks ! (A_indices ! j)"
  note d = row_stateD[OF st]
  have c: "c = length pre + length acc" by (rule d(1))
  have tk: "take c BSi = pre @ acc" by (rule d(2))
  have ls: "length seen = n_blocks" by (rule d(3))
  have sn: "seen ! b = (if b \<in> set acc then 1 else 0)" if "b < n_blocks" for b
    using d(4) that by blast
  show ?thesis
  proof (cases "seen ! ?g = 0")
    case True
    with sn[OF blk] have fresh: "?g \<notin> set acc" by (simp split: if_splits)
    have v: "support_visit A_indices g_blocks j (BSi, seen, c) =
               (BSi[c := ?g], seen[?g := 1], c + 1)"
      using True by (simp add: support_visit_def Let_def)
    have tk': "take (c + 1) (BSi[c := ?g]) = pre @ (acc @ [?g])"
      using room tk by (simp add: take_Suc_conv_app_nth)
    have sn': "seen[?g := 1] ! b = (if b \<in> set (acc @ [?g]) then 1 else 0)" if "b < n_blocks" for b
      using that sn[OF that] ls by (cases "b = ?g") simp_all
    have nb: "note_block ?g acc = acc @ [?g]" using fresh by (simp add: note_block_def)
    have "row_state pre (acc @ [?g]) n_blocks (BSi[c := ?g], seen[?g := 1], c + 1)"
    proof (rule row_stateI)
      show "c + 1 = length pre + length (acc @ [?g])" using c by simp
      show "take (c + 1) (BSi[c := ?g]) = pre @ acc @ [?g]" by (rule tk')
      show "length (seen[?g := 1]) = n_blocks" using ls by simp
      show "\<forall>b < n_blocks. seen[?g := 1] ! b = (if b \<in> set (acc @ [?g]) then 1 else 0)"
        using sn' by blast
    qed
    then have "row_state pre (note_block ?g acc) n_blocks (BSi[c := ?g], seen[?g := 1], c + 1)"
      by (simp only: nb)
    with v show ?thesis by simp
  next
    case False
    with sn[OF blk] have old: "?g \<in> set acc" by (simp split: if_splits)
    have v: "support_visit A_indices g_blocks j (BSi, seen, c) = (BSi, seen, c)"
      using False by (simp add: support_visit_def Let_def)
    have "note_block ?g acc = acc" using old by (simp add: note_block_def)
    with v st show ?thesis by simp
  qed
qed

lemma support_visit_fold:
  assumes "row_state pre acc n_blocks (BSi, seen, c)"
    and "\<forall>j \<in> set js. g_blocks ! (A_indices ! j) < n_blocks"
    and "c + length js \<le> length BSi"
  shows "\<exists>BSi' seen' c'.
           fold (support_visit A_indices g_blocks) js (BSi, seen, c) = (BSi', seen', c') \<and>
           row_state pre (fold note_block (map (\<lambda>j. g_blocks ! (A_indices ! j)) js) acc)
             n_blocks (BSi', seen', c') \<and>
           length BSi' = length BSi \<and> c' \<le> c + length js"
  using assms
proof (induction js arbitrary: BSi seen c acc)
  case Nil
  then show ?case by simp
next
  case (Cons j js)
  from Cons.prems(2) have bj: "g_blocks ! (A_indices ! j) < n_blocks" by simp
  from Cons.prems(3) have room: "c < length BSi" by simp
  from support_visit_step[OF Cons.prems(1) bj room]
  obtain BSi1 seen1 c1 where
    v: "support_visit A_indices g_blocks j (BSi, seen, c) = (BSi1, seen1, c1)"
    and st1: "row_state pre (note_block (g_blocks ! (A_indices ! j)) acc) n_blocks (BSi1, seen1, c1)"
    and l1: "length BSi1 = length BSi" and c1: "c1 \<le> Suc c"
    by blast
  from Cons.prems(2) have rest: "\<forall>j \<in> set js. g_blocks ! (A_indices ! j) < n_blocks" by simp
  from Cons.prems(3) l1 c1 have room1: "c1 + length js \<le> length BSi1" by simp
  from Cons.IH[OF st1 rest room1]
  obtain BSi' seen' c' where
    f: "fold (support_visit A_indices g_blocks) js (BSi1, seen1, c1) = (BSi', seen', c')"
    and st': "row_state pre
               (fold note_block (map (\<lambda>j. g_blocks ! (A_indices ! j)) js)
                  (note_block (g_blocks ! (A_indices ! j)) acc)) n_blocks (BSi', seen', c')"
    and l': "length BSi' = length BSi1" and c': "c' \<le> c1 + length js"
    by blast
  have "fold (support_visit A_indices g_blocks) (j # js) (BSi, seen, c) = (BSi', seen', c')"
    by (simp add: v f)
  moreover have "length BSi' = length BSi" using l' l1 by simp
  moreover have "c' \<le> c + length (j # js)" using c' c1 by simp
  ultimately show ?case using st' by simp
qed

lemma clear_fold_nth:
  "b < length seen \<Longrightarrow>
   fold (\<lambda>j seen. seen[f j := 0]) js seen ! b = (if b \<in> f ` set js then 0 else (seen ! b :: nat))"
  by (induction js arbitrary: seen) (auto simp: nth_list_update)

lemma clear_fold_length: "length (fold (\<lambda>j seen. seen[f j := (0 :: nat)]) js seen) = length seen"
  by (induction js arbitrary: seen) simp_all

lemma support_cleanup_zero:
  assumes "row_state pre acc n_blocks (BSi, seen, c)"
  shows "support_cleanup BSi (length pre) c seen = replicate n_blocks 0"
proof (rule nth_equalityI)
  note d = row_stateD[OF assms]
  have ls: "length seen = n_blocks" by (rule d(3))
  show "length (support_cleanup BSi (length pre) c seen) = length (replicate n_blocks (0 :: nat))"
    by (simp add: support_cleanup_def clear_fold_length ls)
  fix b assume "b < length (support_cleanup BSi (length pre) c seen)"
  then have b: "b < n_blocks" by (simp add: support_cleanup_def clear_fold_length ls)
  have c: "c = length pre + length acc" by (rule d(1))
  have tk: "take c BSi = pre @ acc" by (rule d(2))
  have sn: "seen ! b = (if b \<in> set acc then 1 else 0)" using d(4) b by blast
  have "map (\<lambda>j. BSi ! j) [length pre..<c] = map (\<lambda>j. take c BSi ! j) [length pre..<c]"
    by simp
  also have "\<dots> = map (\<lambda>j. (pre @ acc) ! j) [length pre..<length pre + length acc]"
    unfolding tk unfolding c ..
  also have "\<dots> = acc"
    by (intro nth_equalityI) (simp_all add: nth_append)
  finally have "(\<lambda>j. BSi ! j) ` set [length pre..<c] = set acc"
    by (metis set_map)
  then show "support_cleanup BSi (length pre) c seen ! b = replicate n_blocks 0 ! b"
    using b ls sn by (simp add: support_cleanup_def clear_fold_nth)
qed

lemma outer_stateD:
  assumes "outer_state A_indices A_indptr g_blocks n_blocks m (BSi, BSp, seen, c)"
  shows "length BSi = length A_indices" and "length BSp = length A_indptr"
    and "seen = replicate n_blocks 0"
    and "take c BSi = flat_support A_indices A_indptr g_blocks m"
    and "c = length (flat_support A_indices A_indptr g_blocks m)"
    and "\<forall>k \<le> m. BSp ! k = length (flat_support A_indices A_indptr g_blocks k)"
    and "c \<le> A_indptr ! m"
proof -
  note r = assms[unfolded outer_state_def prod.case]
  note r2 = r[THEN conjunct2]
  note r3 = r2[THEN conjunct2]
  note r4 = r3[THEN conjunct2]
  note r5 = r4[THEN conjunct2]
  note r6 = r5[THEN conjunct2]
  show "length BSi = length A_indices" by (rule r[THEN conjunct1])
  show "length BSp = length A_indptr" by (rule r2[THEN conjunct1])
  show "seen = replicate n_blocks 0" by (rule r3[THEN conjunct1])
  show "take c BSi = flat_support A_indices A_indptr g_blocks m" by (rule r4[THEN conjunct1])
  show "c = length (flat_support A_indices A_indptr g_blocks m)" by (rule r5[THEN conjunct1])
  show "\<forall>k \<le> m. BSp ! k = length (flat_support A_indices A_indptr g_blocks k)"
    by (rule r6[THEN conjunct1])
  show "c \<le> A_indptr ! m" by (rule r6[THEN conjunct2])
qed

lemma outer_stateI:
  assumes "length BSi = length A_indices" and "length BSp = length A_indptr"
    and "seen = replicate n_blocks 0"
    and "take c BSi = flat_support A_indices A_indptr g_blocks m"
    and "c = length (flat_support A_indices A_indptr g_blocks m)"
    and "\<forall>k \<le> m. BSp ! k = length (flat_support A_indices A_indptr g_blocks k)"
    and "c \<le> A_indptr ! m"
  shows "outer_state A_indices A_indptr g_blocks n_blocks m (BSi, BSp, seen, c)"
  unfolding outer_state_def prod.case using assms by (intro conjI)

lemma flat_support_Suc:
  "flat_support A_indices A_indptr g_blocks (Suc m) =
     flat_support A_indices A_indptr g_blocks m @
     first_occurrences (row_block_ids A_indices A_indptr g_blocks m)"
  by (simp add: flat_support_def)

lemma support_wfD:
  assumes "support_wf A_indices A_indptr g_blocks n_blocks"
  shows "A_indptr \<noteq> []" and "sorted A_indptr"
    and "\<forall>p \<in> set A_indptr. p \<le> length A_indices"
    and "\<forall>j \<in> set A_indices. j < length g_blocks"
    and "\<forall>g \<in> set g_blocks. g < n_blocks"
proof -
  note r = assms[unfolded support_wf_def list_all_iff]
  show "A_indptr \<noteq> []" by (rule r[THEN conjunct1])
  show "sorted A_indptr" by (rule r[THEN conjunct2, THEN conjunct1])
  show "\<forall>p \<in> set A_indptr. p \<le> length A_indices"
    by (rule r[THEN conjunct2, THEN conjunct2, THEN conjunct1])
  show "\<forall>j \<in> set A_indices. j < length g_blocks"
    by (rule r[THEN conjunct2, THEN conjunct2, THEN conjunct2, THEN conjunct1])
  show "\<forall>g \<in> set g_blocks. g < n_blocks"
    by (rule r[THEN conjunct2, THEN conjunct2, THEN conjunct2, THEN conjunct2])
qed

lemma support_row_step:
  assumes wf: "support_wf A_indices A_indptr g_blocks n_blocks"
    and m: "m + 1 < length A_indptr"
    and st: "outer_state A_indices A_indptr g_blocks n_blocks m (BSi, BSp, seen, c)"
  shows "outer_state A_indices A_indptr g_blocks n_blocks (Suc m)
           (support_row A_indices A_indptr g_blocks m (BSi, BSp, seen, c))"
proof -
  note w = support_wfD[OF wf]
  note d = outer_stateD[OF st]
  let ?low = "A_indptr ! m" and ?high = "A_indptr ! (m + 1)"
  let ?flat = "flat_support A_indices A_indptr g_blocks m"
  let ?row = "first_occurrences (row_block_ids A_indices A_indptr g_blocks m)"
  have lowhigh: "?low \<le> ?high"
    using w(2) m by (simp add: sorted_iff_nth_mono)
  have "?high \<in> set A_indptr" using m by simp
  with w(3) have high: "?high \<le> length A_indices" by blast
  have blocks: "\<forall>j \<in> set [?low..<?high]. g_blocks ! (A_indices ! j) < n_blocks"
  proof
    fix j assume "j \<in> set [?low..<?high]"
    with high have "j < length A_indices" by simp
    then have "A_indices ! j \<in> set A_indices" by simp
    with w(4) have "A_indices ! j < length g_blocks" by blast
    then have "g_blocks ! (A_indices ! j) \<in> set g_blocks" by simp
    with w(5) show "g_blocks ! (A_indices ! j) < n_blocks" by blast
  qed
  have room: "c + length [?low..<?high] \<le> length BSi"
    using d(7) d(1) lowhigh high by simp
  have start: "row_state ?flat [] n_blocks (BSi, seen, c)"
  proof (rule row_stateI)
    show "c = length ?flat + length ([] :: nat list)" using d(5) by simp
    show "take c BSi = ?flat @ []" using d(4) by simp
    show "length seen = n_blocks" using d(3) by simp
    show "\<forall>b < n_blocks. seen ! b = (if b \<in> set [] then 1 else 0)" using d(3) by simp
  qed
  from support_visit_fold[OF start blocks room]
  obtain BSi' seen' c' where
    f: "fold (support_visit A_indices g_blocks) [?low..<?high] (BSi, seen, c) = (BSi', seen', c')"
    and st': "row_state ?flat
                (fold note_block (map (\<lambda>j. g_blocks ! (A_indices ! j)) [?low..<?high]) [])
                n_blocks (BSi', seen', c')"
    and l': "length BSi' = length BSi" and c': "c' \<le> c + length [?low..<?high]"
    by blast
  have acc: "fold note_block (map (\<lambda>j. g_blocks ! (A_indices ! j)) [?low..<?high]) [] = ?row"
    by (simp add: fold_note_block row_block_ids_def)
  from st' have st'': "row_state ?flat ?row n_blocks (BSi', seen', c')"
    by (simp only: acc)
  note e = row_stateD[OF st'']
  have pm: "BSp[m + 1 := c'] ! m = length ?flat"
    using d(6) by simp
  have clean: "support_cleanup BSi' (BSp[m + 1 := c'] ! m) c' seen' = replicate n_blocks 0"
    unfolding pm by (rule support_cleanup_zero[OF st''])
  have row: "support_row A_indices A_indptr g_blocks m (BSi, BSp, seen, c) =
               (BSi', BSp[m + 1 := c'], replicate n_blocks 0, c')"
    by (simp only: support_row_def Let_def prod.case f clean)
  have "outer_state A_indices A_indptr g_blocks n_blocks (Suc m)
          (BSi', BSp[m + 1 := c'], replicate n_blocks 0, c')"
  proof (rule outer_stateI)
    show "length BSi' = length A_indices" using l' d(1) by simp
    show "length (BSp[m + 1 := c']) = length A_indptr" using d(2) by simp
    show "replicate n_blocks (0 :: nat) = replicate n_blocks 0" ..
    show "take c' BSi' = flat_support A_indices A_indptr g_blocks (Suc m)"
      using e(2) by (simp add: flat_support_Suc)
    show "c' = length (flat_support A_indices A_indptr g_blocks (Suc m))"
      using e(1) by (simp add: flat_support_Suc)
    show "\<forall>k \<le> Suc m. BSp[m + 1 := c'] ! k =
            length (flat_support A_indices A_indptr g_blocks k)"
    proof (intro allI impI)
      fix k assume k: "k \<le> Suc m"
      show "BSp[m + 1 := c'] ! k = length (flat_support A_indices A_indptr g_blocks k)"
      proof (cases "k = Suc m")
        case True
        have "BSp[m + 1 := c'] ! Suc m = c'" using m d(2) by simp
        with True e(1) show ?thesis by (simp add: flat_support_Suc)
      next
        case False
        with k have "k \<le> m" by simp
        with d(6) False show ?thesis by simp
      qed
    qed
    show "c' \<le> A_indptr ! Suc m"
      using c' d(7) lowhigh by simp
  qed
  with row show ?thesis by simp
qed

lemma support_loop_prefix:
  assumes wf: "support_wf A_indices A_indptr g_blocks n_blocks"
    and m: "m < length A_indptr"
  shows "outer_state A_indices A_indptr g_blocks n_blocks m
           (fold (support_row A_indices A_indptr g_blocks) [0..<m]
              (replicate (length A_indices) 0, (replicate (length A_indptr) 0)[0 := 0],
               replicate n_blocks 0, 0))"
  using m
proof (induction m)
  case 0
  have "outer_state A_indices A_indptr g_blocks n_blocks 0
          (replicate (length A_indices) 0, (replicate (length A_indptr) 0)[0 := 0],
           replicate n_blocks 0, 0)"
  proof (rule outer_stateI)
    show "\<forall>k \<le> 0. (replicate (length A_indptr) 0)[0 := 0] ! k =
            length (flat_support A_indices A_indptr g_blocks k)"
      using 0 by (simp add: flat_support_def)
  qed (simp_all add: flat_support_def)
  then show ?case by simp
next
  case (Suc m)
  obtain BSi BSp seen c where s: "fold (support_row A_indices A_indptr g_blocks) [0..<m]
              (replicate (length A_indices) 0, (replicate (length A_indptr) 0)[0 := 0],
               replicate n_blocks 0, 0) = (BSi, BSp, seen, c)"
    using prod_cases4 by blast
  from Suc have "outer_state A_indices A_indptr g_blocks n_blocks m (BSi, BSp, seen, c)"
    by (simp add: s)
  moreover from Suc.prems have "m + 1 < length A_indptr" by simp
  ultimately have "outer_state A_indices A_indptr g_blocks n_blocks (Suc m)
           (support_row A_indices A_indptr g_blocks m (BSi, BSp, seen, c))"
    using wf by (intro support_row_step)
  then show ?case by (simp add: s)
qed

lemma middle_segment:
  "map (\<lambda>k. (xs @ ys @ zs) ! k) [length xs..<length xs + length ys] = ys"
  by (intro nth_equalityI) (simp_all add: nth_append)

lemma flat_support_split:
  assumes "i < n"
  shows "flat_support A_indices A_indptr g_blocks n =
           flat_support A_indices A_indptr g_blocks i @
           first_occurrences (row_block_ids A_indices A_indptr g_blocks i) @
           concat (map (\<lambda>i. first_occurrences (row_block_ids A_indices A_indptr g_blocks i))
                     [Suc i..<n])"
proof -
  from assms have "[0..<n] = [0..<i] @ i # [Suc i..<n]"
    by (metis le_add1 less_imp_add_positive upt_add_eq_append upt_conv_Cons plus_nat.add_0 less_or_eq_imp_le)
  then show ?thesis by (simp add: flat_support_def)
qed

lemma support_loop_final:
  assumes wf: "support_wf A_indices A_indptr g_blocks n_blocks"
  shows "outer_state A_indices A_indptr g_blocks n_blocks (length A_indptr - 1)
           (support_loop A_indices A_indptr g_blocks n_blocks)"
proof -
  from support_wfD(1)[OF wf] have "length A_indptr - 1 < length A_indptr" by simp
  from support_loop_prefix[OF wf this] show ?thesis by (simp only: support_loop_def)
qed

lemma support_matrix_row:
  assumes wf: "support_wf A_indices A_indptr g_blocks n_blocks"
    and i: "i + 1 < length A_indptr"
  shows "support_of_row (support_matrix A_indices A_indptr g_blocks n_blocks) i =
           first_occurrences (row_block_ids A_indices A_indptr g_blocks i)"
proof -
  obtain BSi BSp seen c where
    l: "support_loop A_indices A_indptr g_blocks n_blocks = (BSi, BSp, seen, c)"
    using prod_cases4 by blast
  let ?n = "length A_indptr - 1"
  let ?flat = "flat_support A_indices A_indptr g_blocks"
  let ?row = "first_occurrences (row_block_ids A_indices A_indptr g_blocks i)"
  from support_loop_final[OF wf]
  have "outer_state A_indices A_indptr g_blocks n_blocks ?n (BSi, BSp, seen, c)"
    by (simp only: l)
  note d = outer_stateD[OF this]
  from i have in1: "i \<le> ?n" and in2: "Suc i \<le> ?n" and lt: "i < ?n" by simp_all
  have p0: "BSp ! i = length (?flat i)" using d(6) in1 by blast
  have p1: "BSp ! (i + 1) = length (?flat i) + length ?row"
    using d(6) in2 by (simp add: flat_support_Suc)
  have m: "support_matrix A_indices A_indptr g_blocks n_blocks =
             (replicate c 1, ?flat ?n, BSp)"
    by (simp add: support_matrix_def l d(4))
  have "support_of_row (support_matrix A_indices A_indptr g_blocks n_blocks) i =
          map (\<lambda>k. ?flat ?n ! k) [length (?flat i)..<length (?flat i) + length ?row]"
    by (simp only: m support_of_row_def prod.case p0 p1)
  also have "\<dots> = ?row"
    unfolding flat_support_split[OF lt] by (rule middle_segment)
  finally show ?thesis .
qed

lemma support_matrix_layout:
  assumes wf: "support_wf A_indices A_indptr g_blocks n_blocks"
  shows "case support_matrix A_indices A_indptr g_blocks n_blocks of
           (BS_data, BS_indices, BS_indptr) \<Rightarrow>
             length BS_indptr = length A_indptr \<and> BS_indptr ! 0 = 0 \<and>
             length BS_data = length BS_indices \<and>
             BS_indptr ! (length A_indptr - 1) = length BS_indices"
proof -
  obtain BSi BSp seen c where
    l: "support_loop A_indices A_indptr g_blocks n_blocks = (BSi, BSp, seen, c)"
    using prod_cases4 by blast
  let ?n = "length A_indptr - 1"
  from support_loop_final[OF wf]
  have "outer_state A_indices A_indptr g_blocks n_blocks ?n (BSi, BSp, seen, c)"
    by (simp only: l)
  note d = outer_stateD[OF this]
  have z: "BSp ! 0 = 0" using d(6) by (simp add: flat_support_def)
  have e: "BSp ! ?n = c" using d(6) d(5) by simp
  have cl: "c \<le> length BSi"
    by (metis d(4) d(5) length_take min.cobounded1)
  have e': "BSp ! (length A_indptr - Suc 0) = c" using e by simp
  show ?thesis
    using cl by (simp add: support_matrix_def l d(2) z e' min_def)
qed

text \<open>
  Claim C9, as amended. For well-formed input, row \<open>i\<close> of the result of \<open>_support_matrix\<close>
  lists the block ids of the row's stored columns, each once, in the order in which the
  blocks are first met along the stored columns of the row (not sorted by block id); the
  rows are stored one after the other in the flat id array, delimited by the row pointers,
  with one stored value 1 per id.
\<close>

theorem support_matrix_rows:
  assumes "support_wf A_indices A_indptr g_blocks n_blocks" and "i + 1 < length A_indptr"
  shows "support_of_row (support_matrix A_indices A_indptr g_blocks n_blocks) i =
           first_occurrences (row_block_ids A_indices A_indptr g_blocks i) \<and>
         distinct (support_of_row (support_matrix A_indices A_indptr g_blocks n_blocks) i) \<and>
         set (support_of_row (support_matrix A_indices A_indptr g_blocks n_blocks) i) =
           set (row_block_ids A_indices A_indptr g_blocks i) \<and>
         (case support_matrix A_indices A_indptr g_blocks n_blocks of
            (BS_data, BS_indices, BS_indptr) \<Rightarrow>
              length BS_indptr = length A_indptr \<and> BS_indptr ! 0 = 0 \<and>
              length BS_data = length BS_indices \<and>
              BS_indptr ! (length A_indptr - 1) = length BS_indices)"
  using support_matrix_row[OF assms] support_matrix_layout[OF assms(1)]
  by (simp add: distinct_first_occurrences set_first_occurrences)

lemma swapped_blocks_run:
  "support_matrix [0, 1] [0, 2] [1, 0] 2 = ([1, 1], [1, 0], [0, 2])"
  by code_simp

theorem support_matrix_rows_witness:
  "support_wf [0, 1] [0, 2] [1, 0] 2 \<and> (0 :: nat) + 1 < length [0 :: nat, 2] \<and>
   support_of_row (support_matrix [0, 1] [0, 2] [1, 0] 2) 0 = [1, 0]"
proof -
  have wf: "support_wf [0, 1] [0, 2] [1, 0] 2" by (simp add: support_wf_def)
  have i: "(0 :: nat) + 1 < length [0 :: nat, 2]" by simp
  have "first_occurrences (row_block_ids [0, 1] [0, 2] [1, 0] 0) = [1, 0]"
    by (simp add: first_occurrences_def row_block_ids_def upt_rec)
  with support_matrix_rows[OF wf i] wf i show ?thesis by simp
qed

theorem support_row_not_sorted:
  "support_matrix [0, 1] [0, 2] [1, 0] 2 = ([1, 1], [1, 0], [0, 2]) \<and>
   \<not> sorted [1, 0 :: nat]"
  by (intro conjI swapped_blocks_run) simp

end
